theory Spec2Isabelle
  imports Main
begin

section \<open>Boundary exchange of a mesh block (bvals.cpp)\<close>

text \<open>
  The development follows \<^verbatim>\<open>src/bvals/bvals.cpp\<close>: the index-range table built by
  \<^verbatim>\<open>InitBoundaryBuffer\<close>, the \<^verbatim>\<open>BoundaryValues\<close> constructor and enrollment functions,
  and the three transfer engines (fluid, field, eflux).

  The headers of the file are not part of the sources at hand, so the compile-time
  constants they define are parameters of the model: the ghost width \<^verbatim>\<open>NGHOST\<close>, the number
  of fluid variables \<^verbatim>\<open>NFLUID\<close>, the switches \<^verbatim>\<open>MAGNETIC_FIELDS_ENABLED\<close> and
  \<^verbatim>\<open>MPI_PARALLEL\<close>, and the component numbers of the edge fluxes. C \<^verbatim>\<open>int\<close> values are
  modelled by \<^typ>\<open>int\<close>; the sizes involved are products of a few block extents and
  stay far below the 32-bit range for every mesh the code is run on, so wrap-around is
  not written out.
\<close>

subsection \<open>Directions, faces and build parameters\<close>

text \<open>
  \<^verbatim>\<open>enum direction\<close>: the six faces of a block, numbered 0 to 5 in this order (even
  numbers are inner faces, odd numbers outer faces).
\<close>

datatype direction = inner_x1 | outer_x1 | inner_x2 | outer_x2 | inner_x3 | outer_x3

datatype face = x1face | x2face | x3face

fun dir_index :: "direction \<Rightarrow> int" where
  "dir_index inner_x1 = 0"
| "dir_index outer_x1 = 1"
| "dir_index inner_x2 = 2"
| "dir_index outer_x2 = 3"
| "dir_index inner_x3 = 4"
| "dir_index outer_x3 = 5"

text \<open>
  Reading an array of six entries at an \<^verbatim>\<open>int\<close> index. Only the indices 0 to 5 name an
  entry; \<open>None\<close> stands for an index outside the array.
\<close>

definition direction_of :: "int \<Rightarrow> direction option" where
  "direction_of n =
     (if n = 0 then Some inner_x1 else if n = 1 then Some outer_x1
      else if n = 2 then Some inner_x2 else if n = 3 then Some outer_x2
      else if n = 4 then Some inner_x3 else if n = 5 then Some outer_x3
      else None)"

text \<open>
  The opposite face, as every send routine computes it:
  \<^verbatim>\<open>if(dir%2==0) oside=dir+1; else oside=dir-1;\<close>
\<close>

definition oside_index :: "direction \<Rightarrow> int" where
  "oside_index dir = (if dir_index dir mod 2 = 0 then dir_index dir + 1 else dir_index dir - 1)"

definition oside :: "direction \<Rightarrow> direction" where
  "oside dir = (case direction_of (oside_index dir) of Some d \<Rightarrow> d | None \<Rightarrow> dir)"

record build_config =
  NGHOST :: int
  NFLUID :: int
  MAGNETIC_FIELDS_ENABLED :: bool
  MPI_PARALLEL :: bool

subsection \<open>The index-range table\<close>

text \<open>
  One row \<^verbatim>\<open>[6]\<close> of a start/end array: entries 0 to 5 are read by the transfer routines
  as \<^verbatim>\<open>si, ei, sj, ej, sk, ek\<close>.
\<close>

record bounds =
  si :: int
  ei :: int
  sj :: int
  ej :: int
  sk :: int
  ek :: int

definition se :: "int \<Rightarrow> int \<Rightarrow> int \<Rightarrow> int \<Rightarrow> int \<Rightarrow> int \<Rightarrow> bounds" where
  "se a b c d e f = \<lparr>si = a, ei = b, sj = c, ej = d, sk = e, ek = f\<rparr>"

text \<open>
  The file-level arrays filled by \<^verbatim>\<open>InitBoundaryBuffer\<close>. They have static storage, so
  every entry is zero before the first call.
\<close>

record range_table =
  fluid_send_se :: "direction \<Rightarrow> bounds"
  fluid_recv_se :: "direction \<Rightarrow> bounds"
  field_send_se :: "direction \<Rightarrow> face \<Rightarrow> bounds"
  field_recv_se :: "direction \<Rightarrow> face \<Rightarrow> bounds"
  fluid_bufsize :: "direction \<Rightarrow> int"
  field_bufsize :: "direction \<Rightarrow> int"
  eflux_bufsize :: "direction \<Rightarrow> int"

definition zero_table :: range_table where
  "zero_table =
     \<lparr>fluid_send_se = (\<lambda>d. se 0 0 0 0 0 0), fluid_recv_se = (\<lambda>d. se 0 0 0 0 0 0),
      field_send_se = (\<lambda>d f. se 0 0 0 0 0 0), field_recv_se = (\<lambda>d f. se 0 0 0 0 0 0),
      fluid_bufsize = (\<lambda>d. 0), field_bufsize = (\<lambda>d. 0), eflux_bufsize = (\<lambda>d. 0)\<rparr>"

text \<open>
  The interior bounds \<^verbatim>\<open>is, ie, js, je, ks, ke\<close> computed at the top of
  \<^verbatim>\<open>InitBoundaryBuffer\<close>. (\<open>is\<close> is a reserved word, hence the prefix.)
\<close>

record interior =
  b_is :: int
  b_ie :: int
  b_js :: int
  b_je :: int
  b_ks :: int
  b_ke :: int

definition interior_bounds :: "build_config \<Rightarrow> int \<Rightarrow> int \<Rightarrow> int \<Rightarrow> interior" where
  "interior_bounds cfg nx1 nx2 nx3 =
     \<lparr>b_is = NGHOST cfg,
      b_ie = NGHOST cfg + nx1 - 1,
      b_js = (if nx2 > 1 then NGHOST cfg else 0),
      b_je = (if nx2 > 1 then NGHOST cfg + nx2 - 1 else 0),
      b_ks = (if nx3 > 1 then NGHOST cfg else 0),
      b_ke = (if nx3 > 1 then NGHOST cfg + nx3 - 1 else 0)\<rparr>"

fun fluid_send_rows :: "int \<Rightarrow> interior \<Rightarrow> direction \<Rightarrow> bounds" where
  "fluid_send_rows g b inner_x1 = se (b_is b) (b_is b + g - 1) (b_js b) (b_je b) (b_ks b) (b_ke b)"
| "fluid_send_rows g b outer_x1 = se (b_ie b - g + 1) (b_ie b) (b_js b) (b_je b) (b_ks b) (b_ke b)"
| "fluid_send_rows g b inner_x2 = se 0 (b_ie b + g) (b_js b) (b_js b + g - 1) (b_ks b) (b_ke b)"
| "fluid_send_rows g b outer_x2 = se 0 (b_ie b + g) (b_je b - g + 1) (b_je b) (b_ks b) (b_ke b)"
| "fluid_send_rows g b inner_x3 = se 0 (b_ie b + g) 0 (b_je b + g) (b_ks b) (b_ks b + g - 1)"
| "fluid_send_rows g b outer_x3 = se 0 (b_ie b + g) 0 (b_je b + g) (b_ke b - g + 1) (b_ke b)"

fun fluid_recv_rows :: "int \<Rightarrow> interior \<Rightarrow> direction \<Rightarrow> bounds" where
  "fluid_recv_rows g b inner_x1 = se (b_is b - g) (b_is b - 1) (b_js b) (b_je b) (b_ks b) (b_ke b)"
| "fluid_recv_rows g b outer_x1 = se (b_ie b + 1) (b_ie b + g) (b_js b) (b_je b) (b_ks b) (b_ke b)"
| "fluid_recv_rows g b inner_x2 = se 0 (b_ie b + g) (b_js b - g) (b_js b - 1) (b_ks b) (b_ke b)"
| "fluid_recv_rows g b outer_x2 = se 0 (b_ie b + g) (b_je b + 1) (b_je b + g) (b_ks b) (b_ke b)"
| "fluid_recv_rows g b inner_x3 = se 0 (b_ie b + g) 0 (b_je b + g) (b_ks b - g) (b_ks b - 1)"
| "fluid_recv_rows g b outer_x3 = se 0 (b_ie b + g) 0 (b_je b + g) (b_ke b + 1) (b_ke b + g)"

fun fluid_bufsize_rows :: "int \<Rightarrow> int \<Rightarrow> int \<Rightarrow> int \<Rightarrow> int \<Rightarrow> direction \<Rightarrow> int" where
  "fluid_bufsize_rows g nf nx1 nx2 nx3 inner_x1 = g * nx2 * nx3 * nf"
| "fluid_bufsize_rows g nf nx1 nx2 nx3 outer_x1 = g * nx2 * nx3 * nf"
| "fluid_bufsize_rows g nf nx1 nx2 nx3 inner_x2 = (nx1 + 2 * g) * g * nx3 * nf"
| "fluid_bufsize_rows g nf nx1 nx2 nx3 outer_x2 = (nx1 + 2 * g) * g * nx3 * nf"
| "fluid_bufsize_rows g nf nx1 nx2 nx3 inner_x3 = (nx1 + 2 * g) * (nx2 + 2 * g) * g * nf"
| "fluid_bufsize_rows g nf nx1 nx2 nx3 outer_x3 = (nx1 + 2 * g) * (nx2 + 2 * g) * g * nf"

fun field_send_rows :: "int \<Rightarrow> interior \<Rightarrow> direction \<Rightarrow> face \<Rightarrow> bounds" where
  "field_send_rows g b inner_x1 x1face = se (b_is b + 1) (b_is b + g) (b_js b) (b_je b) (b_ks b) (b_ke b)"
| "field_send_rows g b inner_x1 x2face = se (b_is b) (b_is b + g - 1) (b_js b) (b_je b + 1) (b_ks b) (b_ke b)"
| "field_send_rows g b inner_x1 x3face = se (b_is b) (b_is b + g - 1) (b_js b) (b_je b) (b_ks b) (b_ke b + 1)"
| "field_send_rows g b outer_x1 x1face = se (b_ie b - g + 1) (b_ie b) (b_js b) (b_je b) (b_ks b) (b_ke b)"
| "field_send_rows g b outer_x1 x2face = se (b_ie b - g + 1) (b_ie b) (b_js b) (b_je b + 1) (b_ks b) (b_ke b)"
| "field_send_rows g b outer_x1 x3face = se (b_ie b - g + 1) (b_ie b) (b_js b) (b_je b) (b_ks b) (b_ke b + 1)"
| "field_send_rows g b inner_x2 x1face = se 0 (b_ie b + g + 1) (b_js b) (b_js b + g - 1) (b_ks b) (b_ke b)"
| "field_send_rows g b inner_x2 x2face = se 0 (b_ie b + g) (b_js b + 1) (b_js b + g) (b_ks b) (b_ke b)"
| "field_send_rows g b inner_x2 x3face = se 0 (b_ie b + g) (b_js b) (b_js b + g - 1) (b_ks b) (b_ke b + 1)"
| "field_send_rows g b outer_x2 x1face = se 0 (b_ie b + g + 1) (b_je b - g + 1) (b_je b) (b_ks b) (b_ke b)"
| "field_send_rows g b outer_x2 x2face = se 0 (b_ie b + g) (b_je b - g + 1) (b_je b) (b_ks b) (b_ke b)"
| "field_send_rows g b outer_x2 x3face = se 0 (b_ie b + g) (b_je b - g + 1) (b_je b) (b_ks b) (b_ke b + 1)"
| "field_send_rows g b inner_x3 x1face = se 0 (b_ie b + g + 1) 0 (b_je b + g) (b_ks b) (b_ks b + g - 1)"
| "field_send_rows g b inner_x3 x2face = se 0 (b_ie b + g) 0 (b_je b + g + 1) (b_ks b) (b_ks b + g - 1)"
| "field_send_rows g b inner_x3 x3face = se 0 (b_ie b + g) 0 (b_je b + g) (b_ks b + 1) (b_ks b + g)"
| "field_send_rows g b outer_x3 x1face = se 0 (b_ie b + g + 1) 0 (b_je b + g) (b_ke b - g + 1) (b_ke b)"
| "field_send_rows g b outer_x3 x2face = se 0 (b_ie b + g) 0 (b_je b + g + 1) (b_ke b - g + 1) (b_ke b)"
| "field_send_rows g b outer_x3 x3face = se 0 (b_ie b + g) 0 (b_je b + g) (b_ke b - g + 1) (b_ke b)"

fun field_recv_rows :: "int \<Rightarrow> interior \<Rightarrow> direction \<Rightarrow> face \<Rightarrow> bounds" where
  "field_recv_rows g b inner_x1 x1face = se (b_is b - g) (b_is b - 1) (b_js b) (b_je b) (b_ks b) (b_ke b)"
| "field_recv_rows g b inner_x1 x2face = se (b_is b - g) (b_is b - 1) (b_js b) (b_je b + 1) (b_ks b) (b_ke b)"
| "field_recv_rows g b inner_x1 x3face = se (b_is b - g) (b_is b - 1) (b_js b) (b_je b) (b_ks b) (b_ke b + 1)"
| "field_recv_rows g b outer_x1 x1face = se (b_ie b + 2) (b_ie b + g + 1) (b_js b) (b_je b) (b_ks b) (b_ke b)"
| "field_recv_rows g b outer_x1 x2face = se (b_ie b + 1) (b_ie b + g) (b_js b) (b_je b + 1) (b_ks b) (b_ke b)"
| "field_recv_rows g b outer_x1 x3face = se (b_ie b + 1) (b_ie b + g) (b_js b) (b_je b) (b_ks b) (b_ke b + 1)"
| "field_recv_rows g b inner_x2 x1face = se 0 (b_ie b + g + 1) (b_js b - g) (b_js b - 1) (b_ks b) (b_ke b)"
| "field_recv_rows g b inner_x2 x2face = se 0 (b_ie b + g) (b_js b - g) (b_js b - 1) (b_ks b) (b_ke b)"
| "field_recv_rows g b inner_x2 x3face = se 0 (b_ie b + g) (b_js b - g) (b_js b - 1) (b_ks b) (b_ke b + 1)"
| "field_recv_rows g b outer_x2 x1face = se 0 (b_ie b + g + 1) (b_je b + 1) (b_je b + g) (b_ks b) (b_ke b)"
| "field_recv_rows g b outer_x2 x2face = se 0 (b_ie b + g) (b_je b + 2) (b_je b + g + 1) (b_ks b) (b_ke b)"
| "field_recv_rows g b outer_x2 x3face = se 0 (b_ie b + g) (b_je b + 1) (b_je b + g) (b_ks b) (b_ke b + 1)"
| "field_recv_rows g b inner_x3 x1face = se 0 (b_ie b + g + 1) 0 (b_je b + g) (b_ks b - g) (b_ks b - 1)"
| "field_recv_rows g b inner_x3 x2face = se 0 (b_ie b + g) 0 (b_je b + g + 1) (b_ks b - g) (b_ks b - 1)"
| "field_recv_rows g b inner_x3 x3face = se 0 (b_ie b + g) 0 (b_je b + g) (b_ks b - g) (b_ks b - 1)"
| "field_recv_rows g b outer_x3 x1face = se 0 (b_ie b + g + 1) 0 (b_je b + g) (b_ke b + 1) (b_ke b + g)"
| "field_recv_rows g b outer_x3 x2face = se 0 (b_ie b + g) 0 (b_je b + g + 1) (b_ke b + 1) (b_ke b + g)"
| "field_recv_rows g b outer_x3 x3face = se 0 (b_ie b + g) 0 (b_je b + g) (b_ke b + 2) (b_ke b + g + 1)"

fun field_bufsize_rows :: "int \<Rightarrow> int \<Rightarrow> int \<Rightarrow> int \<Rightarrow> direction \<Rightarrow> int" where
  "field_bufsize_rows g nx1 nx2 nx3 inner_x1 = g * (nx2 * nx3 + (nx2 + 1) * nx3 + nx2 * (nx3 + 1))"
| "field_bufsize_rows g nx1 nx2 nx3 outer_x1 = g * (nx2 * nx3 + (nx2 + 1) * nx3 + nx2 * (nx3 + 1))"
| "field_bufsize_rows g nx1 nx2 nx3 inner_x2 =
     g * ((nx1 + 2 * g) * nx3 + (nx1 + 2 * g + 1) * nx3 + (nx1 + 2 * g) * (nx3 + 1))"
| "field_bufsize_rows g nx1 nx2 nx3 outer_x2 =
     g * ((nx1 + 2 * g) * nx3 + (nx1 + 2 * g + 1) * nx3 + (nx1 + 2 * g) * (nx3 + 1))"
| "field_bufsize_rows g nx1 nx2 nx3 inner_x3 =
     g * ((nx1 + 2 * g + 1) * (nx2 + 2 * g) + (nx1 + 2 * g) * (nx2 + 2 * g + 1)
          + (nx1 + 2 * g) * (nx2 + 2 * g))"
| "field_bufsize_rows g nx1 nx2 nx3 outer_x3 =
     g * ((nx1 + 2 * g + 1) * (nx2 + 2 * g) + (nx1 + 2 * g) * (nx2 + 2 * g + 1)
          + (nx1 + 2 * g) * (nx2 + 2 * g))"

text \<open>
  The edge-flux sizes are assigned only for the faces of a 2D or a 3D block; the entries
  of the other directions keep the value \<open>old\<close> they had before the call.
\<close>

fun eflux_bufsize_2d :: "int \<Rightarrow> int \<Rightarrow> (direction \<Rightarrow> int) \<Rightarrow> direction \<Rightarrow> int" where
  "eflux_bufsize_2d nx1 nx2 old inner_x1 = (nx2 + 1) * 2"
| "eflux_bufsize_2d nx1 nx2 old outer_x1 = (nx2 + 1) * 2"
| "eflux_bufsize_2d nx1 nx2 old inner_x2 = (nx1 + 1) * 2"
| "eflux_bufsize_2d nx1 nx2 old outer_x2 = (nx1 + 1) * 2"
| "eflux_bufsize_2d nx1 nx2 old inner_x3 = old inner_x3"
| "eflux_bufsize_2d nx1 nx2 old outer_x3 = old outer_x3"

fun eflux_bufsize_3d :: "int \<Rightarrow> int \<Rightarrow> int \<Rightarrow> direction \<Rightarrow> int" where
  "eflux_bufsize_3d nx1 nx2 nx3 inner_x1 = (nx2 + 1) * nx3 * 2 + nx2 * (nx3 + 1) * 2"
| "eflux_bufsize_3d nx1 nx2 nx3 outer_x1 = (nx2 + 1) * nx3 * 2 + nx2 * (nx3 + 1) * 2"
| "eflux_bufsize_3d nx1 nx2 nx3 inner_x2 = (nx1 + 1) * nx3 * 2 + nx1 * (nx3 + 1) * 2"
| "eflux_bufsize_3d nx1 nx2 nx3 outer_x2 = (nx1 + 1) * nx3 * 2 + nx1 * (nx3 + 1) * 2"
| "eflux_bufsize_3d nx1 nx2 nx3 inner_x3 = (nx1 + 1) * nx2 * 2 + nx1 * (nx2 + 1) * 2"
| "eflux_bufsize_3d nx1 nx2 nx3 outer_x3 = (nx1 + 1) * nx2 * 2 + nx1 * (nx2 + 1) * 2"

text \<open>
  \<^verbatim>\<open>void InitBoundaryBuffer(int nx1, int nx2, int nx3)\<close>: the fluid rows are always
  written; the field rows only when magnetic fields are enabled; the edge-flux sizes only
  then and only for \<^verbatim>\<open>nx2 != 1\<close> (the function returns early for a 1D block).
\<close>

definition InitBoundaryBuffer :: "build_config \<Rightarrow> int \<Rightarrow> int \<Rightarrow> int \<Rightarrow> range_table \<Rightarrow> range_table" where
  "InitBoundaryBuffer cfg nx1 nx2 nx3 t =
     (let g = NGHOST cfg;
          b = interior_bounds cfg nx1 nx2 nx3;
          t1 = t\<lparr>fluid_send_se := fluid_send_rows g b,
                 fluid_recv_se := fluid_recv_rows g b,
                 fluid_bufsize := fluid_bufsize_rows g (NFLUID cfg) nx1 nx2 nx3\<rparr>
      in if MAGNETIC_FIELDS_ENABLED cfg then
           (let t2 = t1\<lparr>field_send_se := field_send_rows g b,
                         field_recv_se := field_recv_rows g b,
                         field_bufsize := field_bufsize_rows g nx1 nx2 nx3\<rparr>
            in if nx2 = 1 then t2
               else if nx3 = 1 then t2\<lparr>eflux_bufsize := eflux_bufsize_2d nx1 nx2 (eflux_bufsize t2)\<rparr>
               else t2\<lparr>eflux_bufsize := eflux_bufsize_3d nx1 nx2 nx3\<rparr>)
         else t1)"

subsection \<open>Facts about directions\<close>

lemma direction_of_dir_index [simp]: "direction_of (dir_index d) = Some d"
  by (cases d) (simp_all add: direction_of_def)

lemma oside_simps [simp]:
  "oside inner_x1 = outer_x1" "oside outer_x1 = inner_x1"
  "oside inner_x2 = outer_x2" "oside outer_x2 = inner_x2"
  "oside inner_x3 = outer_x3" "oside outer_x3 = inner_x3"
  by (simp_all add: oside_def oside_index_def direction_of_def)

lemma oside_index_oside: "oside_index d = dir_index (oside d)"
  by (cases d) (simp_all add: oside_index_def)


lemma oside_neq [simp]: "oside d \<noteq> d"
  by (cases d) simp_all

subsection \<open>Buffer sizes of opposite faces\<close>

text \<open>
  The table as the program uses it: \<^verbatim>\<open>InitBoundaryBuffer\<close> run on the zero-initialised
  file-level arrays. All blocks of a mesh share this one table.
\<close>

definition boundary_table :: "build_config \<Rightarrow> int \<Rightarrow> int \<Rightarrow> int \<Rightarrow> range_table" where
  "boundary_table cfg nx1 nx2 nx3 = InitBoundaryBuffer cfg nx1 nx2 nx3 zero_table"

lemma fluid_bufsize_table [simp]:
  "fluid_bufsize (boundary_table cfg nx1 nx2 nx3) = fluid_bufsize_rows (NGHOST cfg) (NFLUID cfg) nx1 nx2 nx3"
  by (simp add: boundary_table_def InitBoundaryBuffer_def Let_def)

lemma fluid_send_se_table [simp]:
  "fluid_send_se (boundary_table cfg nx1 nx2 nx3) = fluid_send_rows (NGHOST cfg) (interior_bounds cfg nx1 nx2 nx3)"
  by (simp add: boundary_table_def InitBoundaryBuffer_def Let_def)

lemma fluid_recv_se_table [simp]:
  "fluid_recv_se (boundary_table cfg nx1 nx2 nx3) = fluid_recv_rows (NGHOST cfg) (interior_bounds cfg nx1 nx2 nx3)"
  by (simp add: boundary_table_def InitBoundaryBuffer_def Let_def)

lemma field_bufsize_table:
  "field_bufsize (boundary_table cfg nx1 nx2 nx3) =
     (if MAGNETIC_FIELDS_ENABLED cfg then field_bufsize_rows (NGHOST cfg) nx1 nx2 nx3 else (\<lambda>d. 0))"
  by (simp add: boundary_table_def InitBoundaryBuffer_def Let_def zero_table_def)

lemma field_send_se_table:
  "MAGNETIC_FIELDS_ENABLED cfg \<Longrightarrow>
   field_send_se (boundary_table cfg nx1 nx2 nx3) = field_send_rows (NGHOST cfg) (interior_bounds cfg nx1 nx2 nx3)"
  by (simp add: boundary_table_def InitBoundaryBuffer_def Let_def)

lemma field_recv_se_table:
  "MAGNETIC_FIELDS_ENABLED cfg \<Longrightarrow>
   field_recv_se (boundary_table cfg nx1 nx2 nx3) = field_recv_rows (NGHOST cfg) (interior_bounds cfg nx1 nx2 nx3)"
  by (simp add: boundary_table_def InitBoundaryBuffer_def Let_def)

lemma eflux_bufsize_table:
  "eflux_bufsize (boundary_table cfg nx1 nx2 nx3) =
     (if MAGNETIC_FIELDS_ENABLED cfg \<and> nx2 \<noteq> 1
      then (if nx3 = 1 then eflux_bufsize_2d nx1 nx2 (\<lambda>d. 0) else eflux_bufsize_3d nx1 nx2 nx3)
      else (\<lambda>d. 0))"
  by (simp add: boundary_table_def InitBoundaryBuffer_def Let_def zero_table_def)

lemma fluid_bufsize_rows_oside:
  "fluid_bufsize_rows g nf nx1 nx2 nx3 (oside d) = fluid_bufsize_rows g nf nx1 nx2 nx3 d"
  by (cases d) simp_all

lemma field_bufsize_rows_oside:
  "field_bufsize_rows g nx1 nx2 nx3 (oside d) = field_bufsize_rows g nx1 nx2 nx3 d"
  by (cases d) simp_all

lemma eflux_bufsize_2d_oside:
  "eflux_bufsize_2d nx1 nx2 (\<lambda>d. 0) (oside d) = eflux_bufsize_2d nx1 nx2 (\<lambda>d. 0) d"
  by (cases d) simp_all

lemma eflux_bufsize_3d_oside:
  "eflux_bufsize_3d nx1 nx2 nx3 (oside d) = eflux_bufsize_3d nx1 nx2 nx3 d"
  by (cases d) simp_all

text \<open>
  C1. For every direction \<open>d\<close> and each of the three channels (fluid, field, edge flux),
  the buffer element count of \<open>d\<close> equals the element count of the opposite direction
  \<open>oside d\<close>, where \<open>oside d\<close> is \<open>d + 1\<close> for an even and \<open>d - 1\<close> for an odd direction
  number. The sender uses the entry of \<open>d\<close>, the receiver the entry of \<open>oside d\<close> of
  the same table.
\<close>

theorem bufsize_oside_equal:
  "dir_index (oside d) = (if dir_index d mod 2 = 0 then dir_index d + 1 else dir_index d - 1)
   \<and> fluid_bufsize (boundary_table cfg nx1 nx2 nx3) d
       = fluid_bufsize (boundary_table cfg nx1 nx2 nx3) (oside d)
   \<and> field_bufsize (boundary_table cfg nx1 nx2 nx3) d
       = field_bufsize (boundary_table cfg nx1 nx2 nx3) (oside d)
   \<and> eflux_bufsize (boundary_table cfg nx1 nx2 nx3) d
       = eflux_bufsize (boundary_table cfg nx1 nx2 nx3) (oside d)"
proof -
  have idx: "dir_index (oside d) = (if dir_index d mod 2 = 0 then dir_index d + 1 else dir_index d - 1)"
    by (cases d) simp_all
  have fl: "fluid_bufsize (boundary_table cfg nx1 nx2 nx3) d
            = fluid_bufsize (boundary_table cfg nx1 nx2 nx3) (oside d)"
    by (simp add: fluid_bufsize_rows_oside)
  have fd: "field_bufsize (boundary_table cfg nx1 nx2 nx3) d
            = field_bufsize (boundary_table cfg nx1 nx2 nx3) (oside d)"
    by (simp add: field_bufsize_table field_bufsize_rows_oside)
  have ef: "eflux_bufsize (boundary_table cfg nx1 nx2 nx3) d
            = eflux_bufsize (boundary_table cfg nx1 nx2 nx3) (oside d)"
    by (simp add: eflux_bufsize_table eflux_bufsize_2d_oside eflux_bufsize_3d_oside)
  from idx fl fd ef show ?thesis by blast
qed

subsection \<open>Send ranges of the face-centred field\<close>

text \<open>
  Notions used to state the property: the face component that lies in the plane of
  the exchanged boundary, the pair (start, end) of a row along the axis normal to that
  boundary, and the index of the face that coincides with the block boundary (the first
  interior face on the inner side, one past the last interior cell on the outer side).
\<close>

fun aligned_face :: "direction \<Rightarrow> face" where
  "aligned_face inner_x1 = x1face"
| "aligned_face outer_x1 = x1face"
| "aligned_face inner_x2 = x2face"
| "aligned_face outer_x2 = x2face"
| "aligned_face inner_x3 = x3face"
| "aligned_face outer_x3 = x3face"

fun normal_range :: "direction \<Rightarrow> bounds \<Rightarrow> int \<times> int" where
  "normal_range inner_x1 r = (si r, ei r)"
| "normal_range outer_x1 r = (si r, ei r)"
| "normal_range inner_x2 r = (sj r, ej r)"
| "normal_range outer_x2 r = (sj r, ej r)"
| "normal_range inner_x3 r = (sk r, ek r)"
| "normal_range outer_x3 r = (sk r, ek r)"

fun boundary_face :: "interior \<Rightarrow> direction \<Rightarrow> int" where
  "boundary_face b inner_x1 = b_is b"
| "boundary_face b outer_x1 = b_ie b + 1"
| "boundary_face b inner_x2 = b_js b"
| "boundary_face b outer_x2 = b_je b + 1"
| "boundary_face b inner_x3 = b_ks b"
| "boundary_face b outer_x3 = b_ke b + 1"

definition is_inner :: "direction \<Rightarrow> bool" where
  "is_inner d = (dir_index d mod 2 = 0)"

text \<open>A range moved by one layer towards the interior of the block.\<close>

definition shifted_inward :: "direction \<Rightarrow> int \<times> int \<Rightarrow> int \<times> int" where
  "shifted_inward d r = (if is_inner d then (fst r + 1, snd r + 1) else (fst r - 1, snd r - 1))"

text \<open>
  C5, as stated, read on the index ranges of the table: in every direction the send range
  of the aligned component would be the plain ghost-width slab (the one the cell-centred
  fluid sends) moved inward by one layer. On the outer faces this fails: there the aligned
  component has exactly the index range of the plain slab, here with two ghost layers and
  four cells along x1.
\<close>

theorem field_send_outer_not_shifted:
  "normal_range outer_x1
     (field_send_se (boundary_table \<lparr>NGHOST = 2, NFLUID = 5, MAGNETIC_FIELDS_ENABLED = True,
        MPI_PARALLEL = False\<rparr> 4 4 4) outer_x1 (aligned_face outer_x1))
   \<noteq> shifted_inward outer_x1
      (normal_range outer_x1
        (fluid_send_se (boundary_table \<lparr>NGHOST = 2, NFLUID = 5, MAGNETIC_FIELDS_ENABLED = True,
           MPI_PARALLEL = False\<rparr> 4 4 4) outer_x1))"
  by (simp add: field_send_se_table interior_bounds_def se_def shifted_inward_def is_inner_def)

text \<open>
  C5, amended. With magnetic fields enabled, for every direction \<open>d\<close>:
  the two components not aligned with the exchanged face send, along the normal axis, the
  plain ghost-width slab (the range of the fluid, \<open>NGHOST\<close> layers thick);
  the aligned component sends the \<open>NGHOST\<close> faces next to the boundary face without the
  boundary face itself, which on an inner face is the plain slab moved inward by one layer
  and on an outer face is the index range of the plain slab unchanged.
\<close>

theorem field_send_aligned_component:
  assumes "MAGNETIC_FIELDS_ENABLED cfg"
  shows "(f \<noteq> aligned_face d \<longrightarrow>
            normal_range d (field_send_se (boundary_table cfg nx1 nx2 nx3) d f)
              = normal_range d (fluid_send_se (boundary_table cfg nx1 nx2 nx3) d)
          \<and> snd (normal_range d (field_send_se (boundary_table cfg nx1 nx2 nx3) d f))
              - fst (normal_range d (field_send_se (boundary_table cfg nx1 nx2 nx3) d f)) + 1
              = NGHOST cfg)
       \<and> normal_range d (field_send_se (boundary_table cfg nx1 nx2 nx3) d (aligned_face d))
           = (if is_inner d
              then (boundary_face (interior_bounds cfg nx1 nx2 nx3) d + 1,
                    boundary_face (interior_bounds cfg nx1 nx2 nx3) d + NGHOST cfg)
              else (boundary_face (interior_bounds cfg nx1 nx2 nx3) d - NGHOST cfg,
                    boundary_face (interior_bounds cfg nx1 nx2 nx3) d - 1))
       \<and> normal_range d (field_send_se (boundary_table cfg nx1 nx2 nx3) d (aligned_face d))
           = (if is_inner d
              then shifted_inward d (normal_range d (fluid_send_se (boundary_table cfg nx1 nx2 nx3) d))
              else normal_range d (fluid_send_se (boundary_table cfg nx1 nx2 nx3) d))"
  using assms
  by (cases d; cases f)
     (simp_all add: field_send_se_table se_def shifted_inward_def is_inner_def)

theorem field_send_aligned_component_witness:
  "normal_range inner_x2
     (field_send_se (boundary_table \<lparr>NGHOST = 2, NFLUID = 5, MAGNETIC_FIELDS_ENABLED = True,
        MPI_PARALLEL = False\<rparr> 4 4 4) inner_x2 x1face) = (2, 3)
   \<and> normal_range inner_x2
     (field_send_se (boundary_table \<lparr>NGHOST = 2, NFLUID = 5, MAGNETIC_FIELDS_ENABLED = True,
        MPI_PARALLEL = False\<rparr> 4 4 4) inner_x2 x2face) = (3, 4)"
  using field_send_aligned_component
    [of "\<lparr>NGHOST = 2, NFLUID = 5, MAGNETIC_FIELDS_ENABLED = True, MPI_PARALLEL = False\<rparr>"
        x1face inner_x2 4 4 4]
  by (simp add: interior_bounds_def se_def is_inner_def)

section \<open>Blocks, buffers and boundary functions\<close>

subsection \<open>Failures\<close>

text \<open>
  A message assembled with \<^verbatim>\<open><<\<close> on a string stream, piece by piece; a thrown
  \<^verbatim>\<open>std::runtime_error\<close> carries it. The other failures are the ways the C++ code can
  leave defined behaviour or never return: an array allocation of negative size, a call
  through a null function pointer, a dereference of the null block pointer, an access past
  the end of a buffer, a wait on a request that was never posted, a receive that is longer
  than the posted buffer, and a wait for a message that never arrives.
\<close>

datatype msg_part = Str string | Num int | Endl

datatype failure =
    runtime_error "msg_part list"
  | bad_array_new_length
  | null_function_call
  | null_block
  | buffer_overrun
  | invalid_request
  | message_truncated
  | wait_never_returns

definition bindR :: "failure + 'x \<Rightarrow> ('x \<Rightarrow> failure + 'y) \<Rightarrow> failure + 'y" where
  "bindR m f = (case m of Inl e \<Rightarrow> Inl e | Inr x \<Rightarrow> f x)"

subsection \<open>Data\<close>

text \<open>
  A boundary function pointer. The built-in functions live in other source files;
  \<open>Reflect inner_x1\<close> stands for \<^verbatim>\<open>ReflectInnerX1\<close>, \<open>Outflow outer_x2\<close> for
  \<^verbatim>\<open>OutflowOuterX2\<close>, \<open>DefaultEFlux inner_x3\<close> for \<^verbatim>\<open>DefaultEFluxInnerX3\<close>, and so on.
  \<open>UserFn n\<close> is a function supplied by the problem generator.
\<close>

datatype fnptr = NULL | Reflect direction | Outflow direction | DefaultEFlux direction | UserFn nat

datatype channel = tag_fluid | tag_field | tag_eflux

text \<open>
  \<^verbatim>\<open>AthenaArray<Real>\<close> read and written through \<^verbatim>\<open>a(n,k,j,i)\<close>; the three-index
  access \<^verbatim>\<open>a(k,j,i)\<close> addresses the same storage as \<^verbatim>\<open>a(0,k,j,i)\<close>. The element type is
  left open: the exchange only copies values.
\<close>

type_synonym 'a AthenaArray = "int \<times> int \<times> int \<times> int \<Rightarrow> 'a"

record 'a InterfaceField =
  x1f :: "'a AthenaArray"
  x2f :: "'a AthenaArray"
  x3f :: "'a AthenaArray"

text \<open>A posted non-blocking receive: source rank, tag and element count.\<close>

record request =
  req_rank :: int
  req_tag :: int
  req_count :: int

record NeighborBlock =
  gid :: int
  lid :: int
  rank :: int

text \<open>
  The members of \<^verbatim>\<open>BoundaryValues\<close>. Of the flag arrays \<^verbatim>\<open>[6][2][2]\<close> only the entry
  \<^verbatim>\<open>[dir][0][0]\<close> is ever read or written after construction, so one flag per direction
  is kept; the same holds for the request arrays. A buffer is the list of its elements; a
  buffer that was never allocated is the empty list.
\<close>

record 'a BoundaryValues =
  FluidBoundary :: "direction \<Rightarrow> fnptr"
  FieldBoundary :: "direction \<Rightarrow> fnptr"
  EFluxBoundary :: "direction \<Rightarrow> fnptr"
  fluid_send :: "direction \<Rightarrow> 'a list"
  fluid_recv :: "direction \<Rightarrow> 'a list"
  field_send :: "direction \<Rightarrow> 'a list"
  field_recv :: "direction \<Rightarrow> 'a list"
  eflux_send :: "direction \<Rightarrow> 'a list"
  eflux_recv :: "direction \<Rightarrow> 'a list"
  fluid_flag :: "direction \<Rightarrow> bool"
  field_flag :: "direction \<Rightarrow> bool"
  eflux_flag :: "direction \<Rightarrow> bool"
  req_fluid_recv :: "direction \<Rightarrow> request option"
  req_field_recv :: "direction \<Rightarrow> request option"
  req_eflux_recv :: "direction \<Rightarrow> request option"

text \<open>
  The part of \<^verbatim>\<open>MeshBlock\<close> the boundary code reads: ids, \<^verbatim>\<open>block_size.nx1/2/3\<close>, the
  interior bounds, the boundary codes, the neighbour table (entry \<^verbatim>\<open>[dir][0][0]\<close>) and
  the block's \<^verbatim>\<open>BoundaryValues\<close> object.
\<close>

record 'a MeshBlock =
  block_gid :: int
  block_lid :: int
  bs_nx1 :: int
  bs_nx2 :: int
  bs_nx3 :: int
  bnd :: interior
  block_bcs :: "direction \<Rightarrow> int"
  neighbor :: "direction \<Rightarrow> NeighborBlock"
  pbval :: "'a BoundaryValues"

text \<open>
  The mesh of one process: the linked list of its blocks starting at \<^verbatim>\<open>pblock\<close>, the mesh
  boundary codes, and the messages handed to \<^verbatim>\<open>MPI_Isend\<close> so far (destination rank, tag,
  elements).
\<close>

record 'a Mesh =
  pblock :: "'a MeshBlock list"
  mesh_bcs :: "direction \<Rightarrow> int"
  mpi_sent :: "(int \<times> int \<times> 'a list) list"

text \<open>
  What the surroundings provide: the rank of this process, the tag function
  \<^verbatim>\<open>CreateMPITag\<close>, the message that eventually arrives from a rank under a tag (\<open>None\<close>
  when none ever does), and the bodies of the boundary functions, which write the array
  they are given.
\<close>

record 'a environment =
  myrank :: int
  CreateMPITag :: "int \<Rightarrow> int \<Rightarrow> int \<Rightarrow> channel \<Rightarrow> int \<Rightarrow> int \<Rightarrow> int"
  arrives :: "int \<Rightarrow> int \<Rightarrow> 'a list option"
  call_fluid :: "fnptr \<Rightarrow> 'a MeshBlock \<Rightarrow> 'a AthenaArray \<Rightarrow> 'a AthenaArray"
  call_field :: "fnptr \<Rightarrow> 'a MeshBlock \<Rightarrow> 'a InterfaceField \<Rightarrow> 'a InterfaceField"
  call_eflux :: "fnptr \<Rightarrow> 'a MeshBlock \<Rightarrow> 'a InterfaceField \<times> 'a InterfaceField
                   \<Rightarrow> 'a InterfaceField \<times> 'a InterfaceField"

definition all_directions :: "direction list" where
  "all_directions = [inner_x1, outer_x1, inner_x2, outer_x2, inner_x3, outer_x3]"

subsection \<open>The constructor\<close>

fun bc_flag_name :: "direction \<Rightarrow> string" where
  "bc_flag_name inner_x1 = ''ix1_bc''"
| "bc_flag_name outer_x1 = ''ox1_bc''"
| "bc_flag_name inner_x2 = ''ix2_bc''"
| "bc_flag_name outer_x2 = ''ox2_bc''"
| "bc_flag_name inner_x3 = ''ix3_bc''"
| "bc_flag_name outer_x3 = ''ox3_bc''"

definition bc_error :: "direction \<Rightarrow> int \<Rightarrow> failure" where
  "bc_error d code =
     runtime_error [Str ''### FATAL ERROR in BoundaryValues constructor'', Endl,
                    Str (''Flag '' @ bc_flag_name d @ ''=''), Num code, Str '' not valid'', Endl]"

text \<open>
  One \<^verbatim>\<open>switch(pmb->block_bcs[d])\<close> of the constructor. The six switches differ only in
  the direction: its functions and the flag name in the message.
\<close>

definition bc_switch :: "direction \<Rightarrow> int \<Rightarrow> 'a BoundaryValues \<Rightarrow> failure + 'a BoundaryValues" where
  "bc_switch d code bv =
     (if code = 1 then
        Inr (bv\<lparr>FluidBoundary := (FluidBoundary bv)(d := Reflect d),
                FieldBoundary := (FieldBoundary bv)(d := Reflect d),
                EFluxBoundary := (EFluxBoundary bv)(d := DefaultEFlux d)\<rparr>)
      else if code = 2 then
        Inr (bv\<lparr>FluidBoundary := (FluidBoundary bv)(d := Outflow d),
                FieldBoundary := (FieldBoundary bv)(d := Outflow d),
                EFluxBoundary := (EFluxBoundary bv)(d := DefaultEFlux d)\<rparr>)
      else if code = - 1 \<or> code = 3 \<or> code = 4 then
        Inr (bv\<lparr>FluidBoundary := (FluidBoundary bv)(d := NULL),
                FieldBoundary := (FieldBoundary bv)(d := NULL),
                EFluxBoundary := (EFluxBoundary bv)(d := NULL)\<rparr>)
      else Inl (bc_error d code))"

text \<open>
  \<^verbatim>\<open>new Real[n]\<close>: a buffer of \<open>n\<close> elements with indeterminate contents (\<open>junk\<close>).
\<close>

definition new_Real :: "'a \<Rightarrow> int \<Rightarrow> failure + 'a list" where
  "new_Real junk n = (if n < 0 then Inl bad_array_new_length else Inr (replicate (nat n) junk))"

definition alloc_fluid :: "'a \<Rightarrow> range_table \<Rightarrow> direction \<Rightarrow> 'a BoundaryValues \<Rightarrow> failure + 'a BoundaryValues" where
  "alloc_fluid junk t i bv =
     bindR (new_Real junk (fluid_bufsize t i)) (\<lambda>s.
     bindR (new_Real junk (fluid_bufsize t i)) (\<lambda>r.
     Inr (bv\<lparr>fluid_send := (fluid_send bv)(i := s), fluid_recv := (fluid_recv bv)(i := r)\<rparr>)))"

definition alloc_field :: "'a \<Rightarrow> range_table \<Rightarrow> direction \<Rightarrow> 'a BoundaryValues \<Rightarrow> failure + 'a BoundaryValues" where
  "alloc_field junk t i bv =
     bindR (new_Real junk (field_bufsize t i)) (\<lambda>s.
     bindR (new_Real junk (field_bufsize t i)) (\<lambda>r.
     Inr (bv\<lparr>field_send := (field_send bv)(i := s), field_recv := (field_recv bv)(i := r)\<rparr>)))"

definition alloc_eflux :: "'a \<Rightarrow> range_table \<Rightarrow> direction \<Rightarrow> 'a BoundaryValues \<Rightarrow> failure + 'a BoundaryValues" where
  "alloc_eflux junk t i bv =
     bindR (new_Real junk (eflux_bufsize t i)) (\<lambda>s.
     bindR (new_Real junk (eflux_bufsize t i)) (\<lambda>r.
     Inr (bv\<lparr>eflux_send := (eflux_send bv)(i := s), eflux_recv := (eflux_recv bv)(i := r)\<rparr>)))"

text \<open>A \<^verbatim>\<open>for\<close> loop over directions whose body may fail.\<close>

fun for_dirs :: "direction list \<Rightarrow> (direction \<Rightarrow> 's \<Rightarrow> failure + 's) \<Rightarrow> 's \<Rightarrow> failure + 's" where
  "for_dirs [] body s = Inr s"
| "for_dirs (i # ds) body s = bindR (body i s) (for_dirs ds body)"

text \<open>
  \<^verbatim>\<open>BoundaryValues::BoundaryValues(MeshBlock *pmb, ParameterInput *pin)\<close>, in its three
  parts: the six switches (those of x2 only for \<^verbatim>\<open>nx2 > 1\<close>, those of x3 only for
  \<^verbatim>\<open>nx3 > 1\<close>), the allocation of the buffers of the first \<open>r\<close> directions, and the
  initialisation of the flags. The object starts as indeterminate storage \<open>raw\<close>; members
  the constructor does not assign keep what \<open>raw\<close> holds.
\<close>

definition ctor_handlers :: "'a MeshBlock \<Rightarrow> 'a BoundaryValues \<Rightarrow> failure + 'a BoundaryValues" where
  "ctor_handlers pmb raw =
     bindR (bc_switch inner_x1 (block_bcs pmb inner_x1) raw) (\<lambda>b1.
     bindR (bc_switch outer_x1 (block_bcs pmb outer_x1) b1) (\<lambda>b2.
     bindR (if bs_nx2 pmb > 1
            then bindR (bc_switch inner_x2 (block_bcs pmb inner_x2) b2)
                       (bc_switch outer_x2 (block_bcs pmb outer_x2))
            else Inr b2) (\<lambda>b4.
     (if bs_nx3 pmb > 1
      then bindR (bc_switch inner_x3 (block_bcs pmb inner_x3) b4)
                 (bc_switch outer_x3 (block_bcs pmb outer_x3))
      else Inr b4))))"

definition ctor_buffers ::
  "build_config \<Rightarrow> range_table \<Rightarrow> 'a \<Rightarrow> 'a MeshBlock \<Rightarrow> 'a BoundaryValues \<Rightarrow> failure + 'a BoundaryValues" where
  "ctor_buffers cfg t junk pmb bv =
     (let r = (if bs_nx3 pmb > 1 then 6 else if bs_nx2 pmb > 1 then 4 else 2) in
      bindR (for_dirs (take r all_directions) (alloc_fluid junk t) bv) (\<lambda>b1.
      if MAGNETIC_FIELDS_ENABLED cfg
      then bindR (for_dirs (take r all_directions) (alloc_field junk t) b1) (\<lambda>b2.
                  if bs_nx2 pmb > 1 then for_dirs (take r all_directions) (alloc_eflux junk t) b2
                  else Inr b2)
      else Inr b1))"

definition ctor_flags :: "build_config \<Rightarrow> 'a BoundaryValues \<Rightarrow> 'a BoundaryValues" where
  "ctor_flags cfg bv =
     (let b1 = bv\<lparr>fluid_flag := (\<lambda>i. False)\<rparr>
      in if MAGNETIC_FIELDS_ENABLED cfg
         then b1\<lparr>field_flag := (\<lambda>i. False), eflux_flag := (\<lambda>i. False)\<rparr>
         else b1)"

definition BoundaryValues_ctor ::
  "build_config \<Rightarrow> range_table \<Rightarrow> 'a \<Rightarrow> 'a MeshBlock \<Rightarrow> 'a BoundaryValues \<Rightarrow> failure + 'a BoundaryValues" where
  "BoundaryValues_ctor cfg t junk pmb raw =
     bindR (ctor_handlers pmb raw) (\<lambda>b1.
     bindR (ctor_buffers cfg t junk pmb b1) (\<lambda>b2.
     Inr (ctor_flags cfg b2)))"

subsection \<open>Boundary codes checked by the constructor\<close>

text \<open>
  Notions used to state the property: the codes the switches accept, the directions whose
  switch the constructor executes, the first of those (in the order of the switches) with a
  code that no \<^verbatim>\<open>case\<close> accepts, and the three functions a \<^verbatim>\<open>case\<close> assigns.
\<close>

definition recognized :: "int \<Rightarrow> bool" where
  "recognized code = (code = 1 \<or> code = 2 \<or> code = - 1 \<or> code = 3 \<or> code = 4)"

fun dir_active :: "'a MeshBlock \<Rightarrow> direction \<Rightarrow> bool" where
  "dir_active pmb inner_x1 = True"
| "dir_active pmb outer_x1 = True"
| "dir_active pmb inner_x2 = (bs_nx2 pmb > 1)"
| "dir_active pmb outer_x2 = (bs_nx2 pmb > 1)"
| "dir_active pmb inner_x3 = (bs_nx3 pmb > 1)"
| "dir_active pmb outer_x3 = (bs_nx3 pmb > 1)"

definition first_bad :: "'a MeshBlock \<Rightarrow> direction option" where
  "first_bad pmb = find (\<lambda>d. dir_active pmb d \<and> \<not> recognized (block_bcs pmb d)) all_directions"

definition handlers_for :: "direction \<Rightarrow> int \<Rightarrow> fnptr \<times> fnptr \<times> fnptr" where
  "handlers_for d code =
     (if code = 1 then (Reflect d, Reflect d, DefaultEFlux d)
      else if code = 2 then (Outflow d, Outflow d, DefaultEFlux d)
      else (NULL, NULL, NULL))"

lemma bindR_Inr [simp]: "bindR (Inr x) f = f x"
  by (simp add: bindR_def)

lemma bindR_Inl [simp]: "bindR (Inl e) f = Inl e"
  by (simp add: bindR_def)

lemma bindR_eq_Inr: "bindR m f = Inr y \<longleftrightarrow> (\<exists>x. m = Inr x \<and> f x = Inr y)"
  by (cases m) simp_all

lemma bc_switch_bad: "\<not> recognized code \<Longrightarrow> bc_switch d code bv = Inl (bc_error d code)"
  by (simp add: bc_switch_def recognized_def)

lemma bc_switch_good:
  "recognized code \<Longrightarrow>
   bc_switch d code bv =
     Inr (bv\<lparr>FluidBoundary := (FluidBoundary bv)(d := fst (handlers_for d code)),
             FieldBoundary := (FieldBoundary bv)(d := fst (snd (handlers_for d code))),
             EFluxBoundary := (EFluxBoundary bv)(d := snd (snd (handlers_for d code)))\<rparr>)"
  by (auto simp add: bc_switch_def recognized_def handlers_for_def)

lemma for_dirs_alloc_fluid:
  "\<forall>d\<in>set ds. 0 \<le> fluid_bufsize t d \<Longrightarrow>
   for_dirs ds (alloc_fluid junk t) bv =
     Inr (bv\<lparr>fluid_send := (\<lambda>d. if d \<in> set ds then replicate (nat (fluid_bufsize t d)) junk else fluid_send bv d),
             fluid_recv := (\<lambda>d. if d \<in> set ds then replicate (nat (fluid_bufsize t d)) junk else fluid_recv bv d)\<rparr>)"
proof (induction ds arbitrary: bv)
  case Nil
  then show ?case by simp
next
  case (Cons a ds)
  then show ?case
    by (auto simp add: alloc_fluid_def new_Real_def fun_eq_iff intro!: arg_cong2[where f="\<lambda>a b. bv\<lparr>fluid_send := a, fluid_recv := b\<rparr>"])
qed

lemma for_dirs_alloc_field:
  "\<forall>d\<in>set ds. 0 \<le> field_bufsize t d \<Longrightarrow>
   for_dirs ds (alloc_field junk t) bv =
     Inr (bv\<lparr>field_send := (\<lambda>d. if d \<in> set ds then replicate (nat (field_bufsize t d)) junk else field_send bv d),
             field_recv := (\<lambda>d. if d \<in> set ds then replicate (nat (field_bufsize t d)) junk else field_recv bv d)\<rparr>)"
proof (induction ds arbitrary: bv)
  case Nil
  then show ?case by simp
next
  case (Cons a ds)
  then show ?case
    by (auto simp add: alloc_field_def new_Real_def fun_eq_iff intro!: arg_cong2[where f="\<lambda>a b. bv\<lparr>field_send := a, field_recv := b\<rparr>"])
qed

lemma for_dirs_alloc_eflux:
  "\<forall>d\<in>set ds. 0 \<le> eflux_bufsize t d \<Longrightarrow>
   for_dirs ds (alloc_eflux junk t) bv =
     Inr (bv\<lparr>eflux_send := (\<lambda>d. if d \<in> set ds then replicate (nat (eflux_bufsize t d)) junk else eflux_send bv d),
             eflux_recv := (\<lambda>d. if d \<in> set ds then replicate (nat (eflux_bufsize t d)) junk else eflux_recv bv d)\<rparr>)"
proof (induction ds arbitrary: bv)
  case Nil
  then show ?case by simp
next
  case (Cons a ds)
  then show ?case
    by (auto simp add: alloc_eflux_def new_Real_def fun_eq_iff intro!: arg_cong2[where f="\<lambda>a b. bv\<lparr>eflux_send := a, eflux_recv := b\<rparr>"])
qed

text \<open>No entry of the three size arrays is negative.\<close>

definition sizes_ok :: "range_table \<Rightarrow> bool" where
  "sizes_ok t = list_all (\<lambda>d. 0 \<le> fluid_bufsize t d \<and> 0 \<le> field_bufsize t d \<and> 0 \<le> eflux_bufsize t d) all_directions"

lemma sizes_okD: "sizes_ok t \<Longrightarrow> 0 \<le> fluid_bufsize t d \<and> 0 \<le> field_bufsize t d \<and> 0 \<le> eflux_bufsize t d"
  by (cases d) (simp_all add: sizes_ok_def all_directions_def)

lemma ctor_handlers_bad:
  "first_bad pmb = Some d \<Longrightarrow> ctor_handlers pmb raw = Inl (bc_error d (block_bcs pmb d))"
  unfolding first_bad_def all_directions_def ctor_handlers_def
  by (auto simp add: bc_switch_bad bc_switch_good split: if_splits)


lemma ctor_handlers_good:
  "first_bad pmb = None \<Longrightarrow>
   ctor_handlers pmb raw =
     Inr (raw\<lparr>FluidBoundary := (\<lambda>d. if dir_active pmb d then fst (handlers_for d (block_bcs pmb d)) else FluidBoundary raw d),
              FieldBoundary := (\<lambda>d. if dir_active pmb d then fst (snd (handlers_for d (block_bcs pmb d))) else FieldBoundary raw d),
              EFluxBoundary := (\<lambda>d. if dir_active pmb d then snd (snd (handlers_for d (block_bcs pmb d))) else EFluxBoundary raw d)\<rparr>)"
proof -
  assume fb: "first_bad pmb = None"
  have ok: "dir_active pmb d \<Longrightarrow> recognized (block_bcs pmb d)" for d
    using fb unfolding first_bad_def all_directions_def
    by (cases d) (auto split: if_splits)
  have eq: "f1 = g1 \<Longrightarrow> f2 = g2 \<Longrightarrow> f3 = g3 \<Longrightarrow>
     raw\<lparr>FluidBoundary := f1, FieldBoundary := f2, EFluxBoundary := f3\<rparr>
     = raw\<lparr>FluidBoundary := g1, FieldBoundary := g2, EFluxBoundary := g3\<rparr>" for f1 f2 f3 g1 g2 g3
    by simp
  show ?thesis
    unfolding ctor_handlers_def
    apply (simp add: bc_switch_good ok)
    apply (intro conjI impI eq ext)
    subgoal for d by (cases d) simp_all
    subgoal for d by (cases d) simp_all
    subgoal for d by (cases d) simp_all
    subgoal for d by (cases d) simp_all
    subgoal for d by (cases d) simp_all
    subgoal for d by (cases d) simp_all
    subgoal for d by (cases d) simp_all
    subgoal for d by (cases d) simp_all
    subgoal for d by (cases d) simp_all
    subgoal for d by (cases d) simp_all
    subgoal for d by (cases d) simp_all
    subgoal for d by (cases d) simp_all
    done
qed

lemma ctor_buffers_ok:
  assumes "sizes_ok t"
  shows "\<exists>bv'. ctor_buffers cfg t junk pmb bv = Inr bv'
           \<and> FluidBoundary bv' = FluidBoundary bv \<and> FieldBoundary bv' = FieldBoundary bv
           \<and> EFluxBoundary bv' = EFluxBoundary bv"
proof -
  have a: "\<forall>d\<in>set ds. 0 \<le> fluid_bufsize t d" for ds using sizes_okD[OF assms] by blast
  have b: "\<forall>d\<in>set ds. 0 \<le> field_bufsize t d" for ds using sizes_okD[OF assms] by blast
  have c: "\<forall>d\<in>set ds. 0 \<le> eflux_bufsize t d" for ds using sizes_okD[OF assms] by blast
  show ?thesis
    unfolding ctor_buffers_def Let_def
    by (simp add: for_dirs_alloc_fluid[OF a] for_dirs_alloc_field[OF b] for_dirs_alloc_eflux[OF c])
qed

lemma ctor_flags_handlers [simp]:
  "FluidBoundary (ctor_flags cfg bv) = FluidBoundary bv"
  "FieldBoundary (ctor_flags cfg bv) = FieldBoundary bv"
  "EFluxBoundary (ctor_flags cfg bv) = EFluxBoundary bv"
  by (simp_all add: ctor_flags_def Let_def)

text \<open>
  The buffers of a constructed object: for each of the first \<open>r\<close> directions the send and
  the receive buffer of a channel have the element count of the table.
\<close>

lemma ctor_buffer_lengths:
  assumes "sizes_ok t"
    and "BoundaryValues_ctor cfg t junk pmb raw = Inr bv"
    and "d \<in> set (take (if bs_nx3 pmb > 1 then 6 else if bs_nx2 pmb > 1 then 4 else 2) all_directions)"
  shows "length (fluid_send bv d) = nat (fluid_bufsize t d)
       \<and> length (fluid_recv bv d) = nat (fluid_bufsize t d)
       \<and> (MAGNETIC_FIELDS_ENABLED cfg \<longrightarrow>
            length (field_send bv d) = nat (field_bufsize t d)
          \<and> length (field_recv bv d) = nat (field_bufsize t d)
          \<and> (bs_nx2 pmb > 1 \<longrightarrow>
               length (eflux_send bv d) = nat (eflux_bufsize t d)
             \<and> length (eflux_recv bv d) = nat (eflux_bufsize t d)))"
proof -
  have a: "\<forall>d\<in>set ds. 0 \<le> fluid_bufsize t d" for ds using sizes_okD[OF assms(1)] by blast
  have b: "\<forall>d\<in>set ds. 0 \<le> field_bufsize t d" for ds using sizes_okD[OF assms(1)] by blast
  have c: "\<forall>d\<in>set ds. 0 \<le> eflux_bufsize t d" for ds using sizes_okD[OF assms(1)] by blast
  from assms(2) obtain b1 b2 where "ctor_buffers cfg t junk pmb b1 = Inr b2" and bv: "bv = ctor_flags cfg b2"
    by (auto simp add: BoundaryValues_ctor_def bindR_eq_Inr)
  then show ?thesis
    using assms(3) unfolding ctor_buffers_def Let_def bv
    by (auto simp add: for_dirs_alloc_fluid[OF a] for_dirs_alloc_field[OF b] for_dirs_alloc_eflux[OF c]
          ctor_flags_def Let_def split: if_splits)
qed

text \<open>
  C6, amended. The constructor examines the boundary codes of the active directions only
  (x1 always, x2 when \<^verbatim>\<open>nx2 > 1\<close>, x3 when \<^verbatim>\<open>nx3 > 1\<close>), in the order of the switches.
  If one of them is not among \<open>-1, 1, 2, 3, 4\<close>, construction throws a
  \<^verbatim>\<open>runtime_error\<close> whose message names the flag of the first such direction and its code.
  Otherwise (and with buffer sizes that are not negative) construction succeeds and every
  active direction holds the functions of its code: reflecting for 1, outflow for 2, the
  null pointer (neighbour transfer or a later enrollment) for -1, 3 and 4; the entries of
  inactive directions are left as they were.
\<close>

theorem ctor_boundary_codes:
  "(case first_bad pmb of
      Some d \<Rightarrow> BoundaryValues_ctor cfg t junk pmb raw = Inl (bc_error d (block_bcs pmb d))
    | None \<Rightarrow>
        (sizes_ok t \<longrightarrow>
          (\<exists>bv. BoundaryValues_ctor cfg t junk pmb raw = Inr bv
             \<and> (\<forall>d. (FluidBoundary bv d, FieldBoundary bv d, EFluxBoundary bv d)
                     = (if dir_active pmb d then handlers_for d (block_bcs pmb d)
                        else (FluidBoundary raw d, FieldBoundary raw d, EFluxBoundary raw d))))))"
proof (cases "first_bad pmb")
  case (Some d)
  then show ?thesis
    by (simp add: BoundaryValues_ctor_def ctor_handlers_bad)
next
  case None
  show ?thesis
  proof (simp add: None, intro impI)
    assume ok: "sizes_ok t"
    obtain b1 where b1: "ctor_handlers pmb raw = Inr b1"
      and f1: "FluidBoundary b1 = (\<lambda>d. if dir_active pmb d then fst (handlers_for d (block_bcs pmb d)) else FluidBoundary raw d)"
      and f2: "FieldBoundary b1 = (\<lambda>d. if dir_active pmb d then fst (snd (handlers_for d (block_bcs pmb d))) else FieldBoundary raw d)"
      and f3: "EFluxBoundary b1 = (\<lambda>d. if dir_active pmb d then snd (snd (handlers_for d (block_bcs pmb d))) else EFluxBoundary raw d)"
      using ctor_handlers_good[OF None, of raw] by simp
    obtain b2 where b2: "ctor_buffers cfg t junk pmb b1 = Inr b2"
      and g: "FluidBoundary b2 = FluidBoundary b1" "FieldBoundary b2 = FieldBoundary b1"
             "EFluxBoundary b2 = EFluxBoundary b1"
      using ctor_buffers_ok[OF ok, of cfg junk pmb b1] by blast
    show "\<exists>bv. BoundaryValues_ctor cfg t junk pmb raw = Inr bv \<and>
         (\<forall>d. (dir_active pmb d \<longrightarrow>
               (FluidBoundary bv d, FieldBoundary bv d, EFluxBoundary bv d) =
               handlers_for d (block_bcs pmb d)) \<and>
              (\<not> dir_active pmb d \<longrightarrow>
               FluidBoundary bv d = FluidBoundary raw d \<and>
               FieldBoundary bv d = FieldBoundary raw d \<and> EFluxBoundary bv d = EFluxBoundary raw d))"
      by (simp add: BoundaryValues_ctor_def b1 b2 g f1 f2 f3 prod_eq_iff)
  qed
qed

subsection \<open>Enrollment of user-defined boundary functions\<close>

definition user_flag_message :: "string \<Rightarrow> msg_part list" where
  "user_flag_message fn =
     [Str (''### FATAL ERROR in '' @ fn @ '' function''), Endl,
      Str ''A user-defined boundary condition flag (3) must be specified '',
      Str ''in the input file to use a user-defined boundary function.'', Endl]"

definition EnrollFluidBoundaryFunction ::
  "'a Mesh \<Rightarrow> 'a MeshBlock \<Rightarrow> int \<Rightarrow> fnptr \<Rightarrow> failure + 'a MeshBlock" where
  "EnrollFluidBoundaryFunction pmy_mesh pmb dir my_bc =
     (if dir < 0 \<or> dir > 5 then
        Inl (runtime_error [Str ''### FATAL ERROR in EnrollFluidBoundaryCondition function'', Endl,
                            Str ''dirName = '', Num dir, Str '' not valid'', Endl])
      else case direction_of dir of
        None \<Rightarrow> Inl buffer_overrun
      | Some d \<Rightarrow>
          if mesh_bcs pmy_mesh d \<noteq> 3 then
            Inl (runtime_error (user_flag_message ''EnrollFluidBoundaryCondition''))
          else if gid (neighbor pmb d) = - 1 then
            Inr (pmb\<lparr>pbval := (pbval pmb)\<lparr>FluidBoundary := (FluidBoundary (pbval pmb))(d := my_bc)\<rparr>\<rparr>)
          else Inr pmb)"

definition EnrollFieldBoundaryFunction ::
  "'a Mesh \<Rightarrow> 'a MeshBlock \<Rightarrow> int \<Rightarrow> fnptr \<Rightarrow> failure + 'a MeshBlock" where
  "EnrollFieldBoundaryFunction pmy_mesh pmb dir my_bc =
     (if dir < 0 \<or> dir > 5 then
        Inl (runtime_error [Str ''### FATAL ERROR in EnrollFieldBoundaryCondition function'', Endl,
                            Str ''dirName = '', Num dir, Str '' is not valid'', Endl])
      else case direction_of dir of
        None \<Rightarrow> Inl buffer_overrun
      | Some d \<Rightarrow>
          if mesh_bcs pmy_mesh d \<noteq> 3 then
            Inl (runtime_error (user_flag_message ''EnrollFieldBoundaryCondition''))
          else if gid (neighbor pmb d) = - 1 then
            Inr (pmb\<lparr>pbval := (pbval pmb)\<lparr>FieldBoundary := (FieldBoundary (pbval pmb))(d := my_bc)\<rparr>\<rparr>)
          else Inr pmb)"

definition EnrollEFluxBoundaryFunction ::
  "'a Mesh \<Rightarrow> 'a MeshBlock \<Rightarrow> int \<Rightarrow> fnptr \<Rightarrow> failure + 'a MeshBlock" where
  "EnrollEFluxBoundaryFunction pmy_mesh pmb dir my_bc =
     (if dir < 0 \<or> dir > 5 then
        Inl (runtime_error [Str ''### FATAL ERROR in EnrollEFluxBoundaryCondition function'', Endl,
                            Str ''dirName = '', Num dir, Str '' is not valid'', Endl])
      else case direction_of dir of
        None \<Rightarrow> Inl buffer_overrun
      | Some d \<Rightarrow>
          if mesh_bcs pmy_mesh d \<noteq> 3 then
            Inl (runtime_error (user_flag_message ''EnrollEFluxBoundaryCondition''))
          else if gid (neighbor pmb d) = - 1 then
            Inr (pmb\<lparr>pbval := (pbval pmb)\<lparr>EFluxBoundary := (EFluxBoundary (pbval pmb))(d := my_bc)\<rparr>\<rparr>)
          else Inr pmb)"

subsection \<open>Posting the receives\<close>

definition irecv :: "'a environment \<Rightarrow> channel \<Rightarrow> int \<Rightarrow> 'a MeshBlock \<Rightarrow> direction \<Rightarrow> int \<Rightarrow> request" where
  "irecv env ch flag pmb i count =
     \<lparr>req_rank = rank (neighbor pmb i),
      req_tag = CreateMPITag env (block_lid pmb) flag (dir_index i) ch 0 0,
      req_count = count\<rparr>"

text \<open>The body of the loop over the six directions, one definition per channel.\<close>

definition post_fluid_recv ::
  "range_table \<Rightarrow> 'a environment \<Rightarrow> int \<Rightarrow> direction \<Rightarrow> 'a MeshBlock \<Rightarrow> 'a MeshBlock" where
  "post_fluid_recv t env flag i b =
     (if gid (neighbor b i) \<noteq> - 1 \<and> rank (neighbor b i) \<noteq> myrank env
      then b\<lparr>pbval := (pbval b)\<lparr>req_fluid_recv :=
             (req_fluid_recv (pbval b))(i := Some (irecv env tag_fluid flag b i (fluid_bufsize t i)))\<rparr>\<rparr>
      else b)"

definition post_field_recv ::
  "range_table \<Rightarrow> 'a environment \<Rightarrow> int \<Rightarrow> direction \<Rightarrow> 'a MeshBlock \<Rightarrow> 'a MeshBlock" where
  "post_field_recv t env flag i b =
     (if gid (neighbor b i) \<noteq> - 1 \<and> rank (neighbor b i) \<noteq> myrank env
      then b\<lparr>pbval := (pbval b)\<lparr>req_field_recv :=
             (req_field_recv (pbval b))(i := Some (irecv env tag_field flag b i (field_bufsize t i)))\<rparr>\<rparr>
      else b)"

definition post_eflux_recv ::
  "build_config \<Rightarrow> range_table \<Rightarrow> 'a environment \<Rightarrow> int \<Rightarrow> direction \<Rightarrow> 'a MeshBlock \<Rightarrow> 'a MeshBlock" where
  "post_eflux_recv cfg t env flag i b =
     (let b1 = b\<lparr>pbval := (pbval b)\<lparr>eflux_flag := (eflux_flag (pbval b))(i := False)\<rparr>\<rparr>
      in if MPI_PARALLEL cfg \<and> gid (neighbor b1 i) \<noteq> - 1 \<and> rank (neighbor b1 i) \<noteq> myrank env
         then b1\<lparr>pbval := (pbval b1)\<lparr>req_eflux_recv :=
                (req_eflux_recv (pbval b1))(i := Some (irecv env tag_eflux flag b1 i (eflux_bufsize t i)))\<rparr>\<rparr>
         else b1)"

text \<open>
  \<^verbatim>\<open>StartReceivingFluid\<close> and \<^verbatim>\<open>StartReceivingField\<close> have an empty body without MPI.
  \<^verbatim>\<open>StartReceivingEFlux\<close> returns at once for a 1D block and otherwise runs over the
  first \<open>ndir\<close> directions, clearing the flag of each before it posts the receive.
\<close>

definition StartReceivingFluid ::
  "build_config \<Rightarrow> range_table \<Rightarrow> 'a environment \<Rightarrow> 'a MeshBlock \<Rightarrow> int \<Rightarrow> 'a MeshBlock" where
  "StartReceivingFluid cfg t env pmb flag =
     (if MPI_PARALLEL cfg then fold (post_fluid_recv t env flag) all_directions pmb else pmb)"

definition StartReceivingField ::
  "build_config \<Rightarrow> range_table \<Rightarrow> 'a environment \<Rightarrow> 'a MeshBlock \<Rightarrow> int \<Rightarrow> 'a MeshBlock" where
  "StartReceivingField cfg t env pmb flag =
     (if MPI_PARALLEL cfg then fold (post_field_recv t env flag) all_directions pmb else pmb)"

definition StartReceivingEFlux ::
  "build_config \<Rightarrow> range_table \<Rightarrow> 'a environment \<Rightarrow> 'a MeshBlock \<Rightarrow> int \<Rightarrow> 'a MeshBlock" where
  "StartReceivingEFlux cfg t env pmb flag =
     (if bs_nx2 pmb = 1 then pmb
      else
        let ndir = (if bs_nx3 pmb > 1 then 6 else 4) in
        fold (post_eflux_recv cfg t env flag) (take ndir all_directions) pmb)"

lemma fold_post_fluid_flags:
  "fluid_flag (pbval (fold (post_fluid_recv t env flag) ds pmb)) = fluid_flag (pbval pmb)"
  by (induction ds arbitrary: pmb) (simp_all add: post_fluid_recv_def)

lemma fold_post_field_flags:
  "field_flag (pbval (fold (post_field_recv t env flag) ds pmb)) = field_flag (pbval pmb)"
  by (induction ds arbitrary: pmb) (simp_all add: post_field_recv_def)

lemma fold_post_eflux_flags:
  "eflux_flag (pbval (fold (post_eflux_recv cfg t env flag) ds pmb)) d
     = (if d \<in> set ds then False else eflux_flag (pbval pmb) d)"
  by (induction ds arbitrary: pmb) (simp_all add: post_eflux_recv_def Let_def)

subsection \<open>Concrete blocks for the examples\<close>

definition demo_cfg :: build_config where
  "demo_cfg = \<lparr>NGHOST = 2, NFLUID = 1, MAGNETIC_FIELDS_ENABLED = True, MPI_PARALLEL = False\<rparr>"

definition raw_storage :: "int BoundaryValues" where
  "raw_storage =
     \<lparr>FluidBoundary = (\<lambda>d. NULL), FieldBoundary = (\<lambda>d. NULL), EFluxBoundary = (\<lambda>d. NULL),
      fluid_send = (\<lambda>d. []), fluid_recv = (\<lambda>d. []),
      field_send = (\<lambda>d. []), field_recv = (\<lambda>d. []),
      eflux_send = (\<lambda>d. []), eflux_recv = (\<lambda>d. []),
      fluid_flag = (\<lambda>d. True), field_flag = (\<lambda>d. True), eflux_flag = (\<lambda>d. True),
      req_fluid_recv = (\<lambda>d. None), req_field_recv = (\<lambda>d. None), req_eflux_recv = (\<lambda>d. None)\<rparr>"

definition no_neighbor :: NeighborBlock where
  "no_neighbor = \<lparr>gid = - 1, lid = - 1, rank = - 1\<rparr>"

definition local_neighbor :: "int \<Rightarrow> NeighborBlock" where
  "local_neighbor g = \<lparr>gid = g, lid = g, rank = 0\<rparr>"

definition demo_block ::
  "int \<Rightarrow> int \<Rightarrow> int \<Rightarrow> int \<Rightarrow> (direction \<Rightarrow> int) \<Rightarrow> (direction \<Rightarrow> NeighborBlock)
     \<Rightarrow> int BoundaryValues \<Rightarrow> int MeshBlock" where
  "demo_block g n1 n2 n3 bcs nbs bv =
     \<lparr>block_gid = g, block_lid = g, bs_nx1 = n1, bs_nx2 = n2, bs_nx3 = n3,
      bnd = interior_bounds demo_cfg n1 n2 n3, block_bcs = bcs, neighbor = nbs, pbval = bv\<rparr>"

definition demo_env :: "int environment" where
  "demo_env =
     \<lparr>myrank = 0,
      CreateMPITag = (\<lambda>l f d c a b. 0),
      arrives = (\<lambda>r t. None),
      call_fluid = (\<lambda>f b a. a),
      call_field = (\<lambda>f b a. a),
      call_eflux = (\<lambda>f b a. a)\<rparr>"

text \<open>
  C6, as stated for every one of the six directions, fails on an inactive direction: a 1D
  block whose inner-x2 code is 7 is constructed without an error, because the x2 switches
  are guarded by \<^verbatim>\<open>nx2 > 1\<close>.
\<close>

theorem ctor_inactive_code_unchecked:
  "\<not> recognized (block_bcs (demo_block 0 4 1 1 ((\<lambda>d. - 1)(inner_x2 := 7)) (\<lambda>d. no_neighbor) raw_storage) inner_x2)
   \<and> \<not> isl (BoundaryValues_ctor demo_cfg (boundary_table demo_cfg 4 1 1) 0
              (demo_block 0 4 1 1 ((\<lambda>d. - 1)(inner_x2 := 7)) (\<lambda>d. no_neighbor) raw_storage) raw_storage)"
  by (simp add: recognized_def demo_block_def BoundaryValues_ctor_def ctor_handlers_def bc_switch_def
      ctor_buffers_def all_directions_def alloc_fluid_def alloc_field_def new_Real_def demo_cfg_def
      field_bufsize_table)

lemma sizes_ok_demo: "sizes_ok (boundary_table demo_cfg 4 4 1)"
  by (simp add: sizes_ok_def all_directions_def demo_cfg_def field_bufsize_table eflux_bufsize_table)

theorem ctor_boundary_codes_witness:
  "BoundaryValues_ctor demo_cfg (boundary_table demo_cfg 4 4 1) 0
     (demo_block 0 4 4 1 ((\<lambda>d. - 1)(inner_x2 := 7)) (\<lambda>d. no_neighbor) raw_storage) raw_storage
     = Inl (runtime_error [Str ''### FATAL ERROR in BoundaryValues constructor'', Endl,
                           Str ''Flag ix2_bc='', Num 7, Str '' not valid'', Endl])
   \<and> (\<exists>bv. BoundaryValues_ctor demo_cfg (boundary_table demo_cfg 4 4 1) 0
              (demo_block 0 4 4 1 ((\<lambda>d. - 1)(inner_x1 := 1, outer_x1 := 2, inner_x3 := 7)) (\<lambda>d. no_neighbor) raw_storage)
              raw_storage = Inr bv
           \<and> FluidBoundary bv inner_x1 = Reflect inner_x1 \<and> EFluxBoundary bv inner_x1 = DefaultEFlux inner_x1
           \<and> FieldBoundary bv outer_x1 = Outflow outer_x1 \<and> FluidBoundary bv outer_x2 = NULL)"
proof -
  let ?bad = "demo_block 0 4 4 1 ((\<lambda>d. - 1)(inner_x2 := 7)) (\<lambda>d. no_neighbor) raw_storage"
  let ?good = "demo_block 0 4 4 1 ((\<lambda>d. - 1)(inner_x1 := 1, outer_x1 := 2, inner_x3 := 7)) (\<lambda>d. no_neighbor) raw_storage"
  have b: "first_bad ?bad = Some inner_x2"
    by (simp add: first_bad_def all_directions_def demo_block_def recognized_def)
  have g: "first_bad ?good = None"
    by (simp add: first_bad_def all_directions_def demo_block_def recognized_def)
  have 1: "BoundaryValues_ctor demo_cfg (boundary_table demo_cfg 4 4 1) 0 ?bad raw_storage
           = Inl (bc_error inner_x2 (block_bcs ?bad inner_x2))"
    using ctor_boundary_codes[where pmb="?bad" and cfg=demo_cfg and t="boundary_table demo_cfg 4 4 1" and junk=0 and raw=raw_storage]
    by (simp add: b)
  obtain bv where 2: "BoundaryValues_ctor demo_cfg (boundary_table demo_cfg 4 4 1) 0 ?good raw_storage = Inr bv"
    and 3: "\<And>d. (FluidBoundary bv d, FieldBoundary bv d, EFluxBoundary bv d)
                     = (if dir_active ?good d then handlers_for d (block_bcs ?good d)
                        else (FluidBoundary raw_storage d, FieldBoundary raw_storage d, EFluxBoundary raw_storage d))"
    using ctor_boundary_codes[where pmb="?good" and cfg=demo_cfg and t="boundary_table demo_cfg 4 4 1" and junk=0 and raw=raw_storage] sizes_ok_demo
    by (auto simp add: g)
  from 3[of inner_x1] 3[of outer_x1] 3[of outer_x2]
  have "FluidBoundary bv inner_x1 = Reflect inner_x1 \<and> EFluxBoundary bv inner_x1 = DefaultEFlux inner_x1
           \<and> FieldBoundary bv outer_x1 = Outflow outer_x1 \<and> FluidBoundary bv outer_x2 = NULL"
    by (simp add: demo_block_def handlers_for_def)
  with 1 2 show ?thesis
    by (simp add: bc_error_def demo_block_def)
qed

subsection \<open>Outcomes of enrollment\<close>

text \<open>A result is fatal when it is a thrown \<^verbatim>\<open>runtime_error\<close>.\<close>

definition is_fatal :: "failure + 'x \<Rightarrow> bool" where
  "is_fatal r = (case r of Inl (runtime_error m) \<Rightarrow> True | _ \<Rightarrow> False)"

definition demo_mesh :: "int MeshBlock list \<Rightarrow> (direction \<Rightarrow> int) \<Rightarrow> int Mesh" where
  "demo_mesh bs bcs = \<lparr>pblock = bs, mesh_bcs = bcs, mpi_sent = []\<rparr>"

text \<open>
  C7, as stated, fails: with the mesh code 3 on the outer-x1 face and a block whose
  outer-x1 neighbour is block 1, the enrollment returns normally and leaves the block as it
  was.
\<close>

theorem enroll_with_neighbor_no_error:
  "gid (neighbor (demo_block 0 4 1 1 (\<lambda>d. 3) ((\<lambda>d. no_neighbor)(outer_x1 := local_neighbor 1)) raw_storage) outer_x1) \<noteq> - 1
   \<and> EnrollFluidBoundaryFunction (demo_mesh [] (\<lambda>d. 3))
        (demo_block 0 4 1 1 (\<lambda>d. 3) ((\<lambda>d. no_neighbor)(outer_x1 := local_neighbor 1)) raw_storage) 1 (UserFn 0)
      = Inr (demo_block 0 4 1 1 (\<lambda>d. 3) ((\<lambda>d. no_neighbor)(outer_x1 := local_neighbor 1)) raw_storage)"
  by (simp add: EnrollFluidBoundaryFunction_def direction_of_def demo_mesh_def demo_block_def
      local_neighbor_def no_neighbor_def)

text \<open>
  C7, amended. Enrollment (fluid, field or edge flux) is a fatal configuration error when
  the direction index is outside 0 to 5, and when the mesh boundary code of the direction
  is not 3 (user-defined). With an index in range and the code 3, enrollment on a direction
  that has a neighbour (global id other than -1) returns without an error and changes
  nothing; on a direction without a neighbour it stores the function for that direction.
\<close>

theorem enroll_outcomes:
  "((dir < 0 \<or> dir > 5) \<longrightarrow>
       is_fatal (EnrollFluidBoundaryFunction m pmb dir f)
     \<and> is_fatal (EnrollFieldBoundaryFunction m pmb dir f)
     \<and> is_fatal (EnrollEFluxBoundaryFunction m pmb dir f))
   \<and> (direction_of dir = Some d \<and> mesh_bcs m d \<noteq> 3 \<longrightarrow>
       is_fatal (EnrollFluidBoundaryFunction m pmb dir f)
     \<and> is_fatal (EnrollFieldBoundaryFunction m pmb dir f)
     \<and> is_fatal (EnrollEFluxBoundaryFunction m pmb dir f))
   \<and> (direction_of dir = Some d \<and> mesh_bcs m d = 3 \<and> gid (neighbor pmb d) \<noteq> - 1 \<longrightarrow>
       EnrollFluidBoundaryFunction m pmb dir f = Inr pmb
     \<and> EnrollFieldBoundaryFunction m pmb dir f = Inr pmb
     \<and> EnrollEFluxBoundaryFunction m pmb dir f = Inr pmb)
   \<and> (direction_of dir = Some d \<and> mesh_bcs m d = 3 \<and> gid (neighbor pmb d) = - 1 \<longrightarrow>
       EnrollFluidBoundaryFunction m pmb dir f
         = Inr (pmb\<lparr>pbval := (pbval pmb)\<lparr>FluidBoundary := (FluidBoundary (pbval pmb))(d := f)\<rparr>\<rparr>)
     \<and> EnrollFieldBoundaryFunction m pmb dir f
         = Inr (pmb\<lparr>pbval := (pbval pmb)\<lparr>FieldBoundary := (FieldBoundary (pbval pmb))(d := f)\<rparr>\<rparr>)
     \<and> EnrollEFluxBoundaryFunction m pmb dir f
         = Inr (pmb\<lparr>pbval := (pbval pmb)\<lparr>EFluxBoundary := (EFluxBoundary (pbval pmb))(d := f)\<rparr>\<rparr>))"
proof -
  have rng: "direction_of dir = Some d \<Longrightarrow> \<not> (dir < 0 \<or> dir > 5)"
    by (auto simp add: direction_of_def split: if_splits)
  show ?thesis
    using rng
    by (auto simp add: is_fatal_def EnrollFluidBoundaryFunction_def EnrollFieldBoundaryFunction_def
        EnrollEFluxBoundaryFunction_def)
qed

theorem enroll_outcomes_witness:
  "is_fatal (EnrollFluidBoundaryFunction (demo_mesh [] (\<lambda>d. 3))
        (demo_block 0 4 1 1 (\<lambda>d. 3) ((\<lambda>d. no_neighbor)(outer_x1 := local_neighbor 1)) raw_storage) 6 (UserFn 0))
   \<and> is_fatal (EnrollFieldBoundaryFunction (demo_mesh [] (\<lambda>d. 2))
        (demo_block 0 4 1 1 (\<lambda>d. 2) ((\<lambda>d. no_neighbor)(outer_x1 := local_neighbor 1)) raw_storage) 0 (UserFn 0))
   \<and> EnrollFieldBoundaryFunction (demo_mesh [] (\<lambda>d. 3))
        (demo_block 0 4 1 1 (\<lambda>d. 3) ((\<lambda>d. no_neighbor)(outer_x1 := local_neighbor 1)) raw_storage) 1 (UserFn 0)
      = Inr (demo_block 0 4 1 1 (\<lambda>d. 3) ((\<lambda>d. no_neighbor)(outer_x1 := local_neighbor 1)) raw_storage)
   \<and> map_sum id (\<lambda>b. FluidBoundary (pbval b) inner_x1)
        (EnrollFluidBoundaryFunction (demo_mesh [] (\<lambda>d. 3))
          (demo_block 0 4 1 1 (\<lambda>d. 3) ((\<lambda>d. no_neighbor)(outer_x1 := local_neighbor 1)) raw_storage) 0 (UserFn 0))
      = Inr (UserFn 0)"
  using enroll_outcomes[where dir=6 and m="demo_mesh [] (\<lambda>d. 3)" and f="UserFn 0" and d=inner_x1
          and pmb="demo_block 0 4 1 1 (\<lambda>d. 3) ((\<lambda>d. no_neighbor)(outer_x1 := local_neighbor 1)) raw_storage"]
        enroll_outcomes[where dir=0 and m="demo_mesh [] (\<lambda>d. 2)" and f="UserFn 0" and d=inner_x1
          and pmb="demo_block 0 4 1 1 (\<lambda>d. 2) ((\<lambda>d. no_neighbor)(outer_x1 := local_neighbor 1)) raw_storage"]
        enroll_outcomes[where dir=1 and m="demo_mesh [] (\<lambda>d. 3)" and f="UserFn 0" and d=outer_x1
          and pmb="demo_block 0 4 1 1 (\<lambda>d. 3) ((\<lambda>d. no_neighbor)(outer_x1 := local_neighbor 1)) raw_storage"]
        enroll_outcomes[where dir=0 and m="demo_mesh [] (\<lambda>d. 3)" and f="UserFn 0" and d=inner_x1
          and pmb="demo_block 0 4 1 1 (\<lambda>d. 3) ((\<lambda>d. no_neighbor)(outer_x1 := local_neighbor 1)) raw_storage"]
  by (simp add: direction_of_def demo_mesh_def demo_block_def local_neighbor_def no_neighbor_def)

subsection \<open>Flags after posting the receives\<close>

text \<open>
  C9, as stated, fails for the fluid channel: a flag that is set before
  \<^verbatim>\<open>StartReceivingFluid\<close> is still set after it (here on the outer-x1 face, which has a
  neighbour, in a build with MPI).
\<close>

theorem start_receiving_fluid_keeps_flag:
  "fluid_flag (pbval (StartReceivingFluid (demo_cfg\<lparr>MPI_PARALLEL := True\<rparr>) (boundary_table demo_cfg 4 1 1) demo_env
      (demo_block 0 4 1 1 (\<lambda>d. - 1) ((\<lambda>d. no_neighbor)(outer_x1 := local_neighbor 1)) raw_storage) 0)) outer_x1
   = True"
  by (simp add: StartReceivingFluid_def post_fluid_recv_def demo_cfg_def all_directions_def demo_block_def
      local_neighbor_def no_neighbor_def demo_env_def raw_storage_def)

text \<open>
  C9, amended. \<^verbatim>\<open>StartReceivingFluid\<close> and \<^verbatim>\<open>StartReceivingField\<close> leave every completion
  flag of their channel as it was. \<^verbatim>\<open>StartReceivingEFlux\<close> sets the edge-flux flag of
  every active direction (the first four directions of a 2D block, all six of a 3D block)
  to false whatever it was before, and leaves the other flags, and all flags of a 1D block,
  unchanged.
\<close>

theorem start_receiving_flags:
  "fluid_flag (pbval (StartReceivingFluid cfg t env pmb flag)) = fluid_flag (pbval pmb)
   \<and> field_flag (pbval (StartReceivingField cfg t env pmb flag)) = field_flag (pbval pmb)
   \<and> eflux_flag (pbval (StartReceivingEFlux cfg t env pmb flag)) d
       = (if bs_nx2 pmb \<noteq> 1 \<and> d \<in> set (take (if bs_nx3 pmb > 1 then 6 else 4) all_directions)
          then False else eflux_flag (pbval pmb) d)"
  by (simp add: StartReceivingFluid_def StartReceivingField_def StartReceivingEFlux_def
      fold_post_fluid_flags fold_post_field_flags fold_post_eflux_flags Let_def)

section \<open>The transfer engines\<close>

subsection \<open>Loops over index ranges\<close>

text \<open>\<^verbatim>\<open>for (int x=lo; x<=hi; ++x) body\<close>, the state threaded through the iterations.\<close>

definition for_range :: "int \<Rightarrow> int \<Rightarrow> (int \<Rightarrow> 's \<Rightarrow> 's) \<Rightarrow> 's \<Rightarrow> 's" where
  "for_range lo hi body s = fold body [lo..hi] s"

text \<open>
  The two loop bodies of the file: \<^verbatim>\<open>buf[p++] = v\<close> on a buffer and its running index, and
  \<^verbatim>\<open>a(idx) = buf[p++]\<close> on an array and the running index. A write or read past the end of
  the buffer shows in the final value of \<open>p\<close>, which the callers compare with the length.
\<close>

definition put :: "'a \<Rightarrow> 'a list \<times> nat \<Rightarrow> 'a list \<times> nat" where
  "put v s = (case s of (buf, p) \<Rightarrow> (buf[p := v], p + 1))"

definition take_into ::
  "'a list \<Rightarrow> int \<times> int \<times> int \<times> int \<Rightarrow> 'a AthenaArray \<times> nat \<Rightarrow> 'a AthenaArray \<times> nat" where
  "take_into buf idx s = (case s of (a, p) \<Rightarrow> (a(idx := buf ! p), p + 1))"

text \<open>The triple loop \<^verbatim>\<open>for k .. for j .. for i ..\<close> over a row of the table.\<close>

definition for_kji :: "bounds \<Rightarrow> (int \<Rightarrow> int \<Rightarrow> int \<Rightarrow> 's \<Rightarrow> 's) \<Rightarrow> 's \<Rightarrow> 's" where
  "for_kji r body =
     for_range (sk r) (ek r) (\<lambda>k.
       for_range (sj r) (ej r) (\<lambda>j.
         for_range (si r) (ei r) (\<lambda>i. body k j i)))"

text \<open>The iteration space of that loop nest, in the order the iterations run.\<close>

definition kji_indices :: "bounds \<Rightarrow> (int \<times> int \<times> int) list" where
  "kji_indices r = List.product [sk r..ek r] (List.product [sj r..ej r] [si r..ei r])"

lemma fold_product:
  "fold (\<lambda>x. fold (f x) ys) xs s = fold (\<lambda>(x, y). f x y) (List.product xs ys) s"
proof (induction xs arbitrary: s)
  case Nil
  then show ?case by simp
next
  case (Cons x xs)
  have "fold (\<lambda>(x, y). f x y) (map (Pair x) ys) s = fold (f x) ys s"
    by (simp add: fold_map comp_def)
  with Cons show ?case by simp
qed

lemma put_step [simp]: "put v (buf, p) = (buf[p := v], Suc p)"
  by (simp add: put_def)

lemma take_into_step [simp]: "take_into buf idx (a, p) = (a(idx := buf ! p), Suc p)"
  by (simp add: take_into_def)

lemma for_kji_fold:
  "for_kji r body s = fold (\<lambda>(k, j, i). body k j i) (kji_indices r) s"
proof -
  let ?JI = "List.product [sj r..ej r] [si r..ei r]"
  have inner: "fold (\<lambda>j. fold (\<lambda>i. body k j i) [si r..ei r]) [sj r..ej r]
               = fold (\<lambda>p. body k (fst p) (snd p)) ?JI" for k
    by (rule ext) (simp add: fold_product case_prod_unfold)
  have "for_kji r body s = fold (\<lambda>k. fold (\<lambda>p. body k (fst p) (snd p)) ?JI) [sk r..ek r] s"
    unfolding for_kji_def for_range_def by (simp add: inner)
  also have "\<dots> = fold (\<lambda>(k, p). body k (fst p) (snd p)) (List.product [sk r..ek r] ?JI) s"
    by (rule fold_product)
  finally show ?thesis
    by (simp add: kji_indices_def case_prod_unfold)
qed

lemma fold_put:
  "p + length vs \<le> length buf \<Longrightarrow>
   fold put vs (buf, p) = (take p buf @ vs @ drop (p + length vs) buf, p + length vs)"
proof (induction vs arbitrary: buf p)
  case Nil
  then show ?case by simp
next
  case (Cons v vs)
  have "fold put (v # vs) (buf, p) = fold put vs (buf[p := v], Suc p)"
    by simp
  also have "\<dots> = (take (Suc p) (buf[p := v]) @ vs @ drop (Suc p + length vs) (buf[p := v]),
                    Suc p + length vs)"
    using Cons.prems by (intro Cons.IH) simp
  also have "take (Suc p) (buf[p := v]) = take p buf @ [v]"
    using Cons.prems by (simp add: take_Suc_conv_app_nth)
  finally show ?case by simp
qed


lemma fold_put_map:
  "fold (\<lambda>x. put (f x)) xs s = fold put (map f xs) s"
  by (simp add: fold_map comp_def)

lemma fold_take_into_count: "snd (fold (take_into buf) I (a, p)) = p + length I"
  by (induction I arbitrary: a p) simp_all

lemma fold_take_into_other:
  "idx \<notin> set I \<Longrightarrow> fst (fold (take_into buf) I (a, p)) idx = a idx"
  by (induction I arbitrary: a p) auto

lemma fold_take_into_nth:
  "distinct I \<Longrightarrow> q < length I \<Longrightarrow> fst (fold (take_into buf) I (a, p)) (I ! q) = buf ! (p + q)"
proof (induction I arbitrary: a p q)
  case Nil
  then show ?case by simp
next
  case (Cons x I)
  have step: "fold (take_into buf) (x # I) (a, p) = fold (take_into buf) I (a(x := buf ! p), Suc p)"
    by simp
  show ?case
  proof (cases q)
    case 0
    have "fst (fold (take_into buf) I (a(x := buf ! p), Suc p)) x = (a(x := buf ! p)) x"
      using Cons.prems by (intro fold_take_into_other) simp
    with 0 show ?thesis
      unfolding step by simp
  next
    case (Suc q')
    have "fst (fold (take_into buf) I (a(x := buf ! p), Suc p)) (I ! q') = buf ! (Suc p + q')"
      using Cons.prems Suc by (intro Cons.IH) simp_all
    with Suc show ?thesis
      unfolding step by simp
  qed
qed

subsection \<open>Fluid: packing and unpacking\<close>

text \<open>
  The pack loops of \<^verbatim>\<open>LoadAndSendFluidBoundaryBuffer\<close> and the unpack loops of
  \<^verbatim>\<open>ReceiveAndSetFluidBoundary\<close>: \<^verbatim>\<open>for n\<close> outermost, then \<^verbatim>\<open>k, j, i\<close>.
\<close>

definition pack_fluid :: "int \<Rightarrow> bounds \<Rightarrow> 'a AthenaArray \<Rightarrow> 'a list \<times> nat \<Rightarrow> 'a list \<times> nat" where
  "pack_fluid nf r src =
     for_range 0 (nf - 1) (\<lambda>n. for_kji r (\<lambda>k j i. put (src (n, k, j, i))))"

definition unpack_fluid ::
  "int \<Rightarrow> bounds \<Rightarrow> 'a list \<Rightarrow> 'a AthenaArray \<times> nat \<Rightarrow> 'a AthenaArray \<times> nat" where
  "unpack_fluid nf r buf =
     for_range 0 (nf - 1) (\<lambda>n. for_kji r (\<lambda>k j i. take_into buf (n, k, j, i)))"

definition fluid_indices :: "int \<Rightarrow> bounds \<Rightarrow> (int \<times> int \<times> int \<times> int) list" where
  "fluid_indices nf r = List.product [0..nf - 1] (kji_indices r)"

lemma pack_fluid_fold:
  "pack_fluid nf r src s = fold put (map src (fluid_indices nf r)) s"
proof -
  have "pack_fluid nf r src s
        = fold (\<lambda>n. fold (\<lambda>p. put (src (n, p))) (kji_indices r)) [0..nf - 1] s"
    unfolding pack_fluid_def for_range_def
    by (simp add: for_kji_fold[abs_def] case_prod_unfold)
  also have "\<dots> = fold (\<lambda>(n, p). put (src (n, p))) (fluid_indices nf r) s"
    unfolding fluid_indices_def by (rule fold_product)
  finally show ?thesis
    by (simp add: fold_map comp_def case_prod_unfold)
qed

lemma unpack_fluid_fold:
  "unpack_fluid nf r buf s = fold (take_into buf) (fluid_indices nf r) s"
proof -
  have "unpack_fluid nf r buf s
        = fold (\<lambda>n. fold (\<lambda>p. take_into buf (n, p)) (kji_indices r)) [0..nf - 1] s"
    unfolding unpack_fluid_def for_range_def
    by (simp add: for_kji_fold[abs_def] case_prod_unfold)
  also have "\<dots> = fold (\<lambda>(n, p). take_into buf (n, p)) (fluid_indices nf r) s"
    unfolding fluid_indices_def by (rule fold_product)
  finally show ?thesis
    by (simp add: case_prod_unfold)
qed

lemma distinct_kji_indices [simp]: "distinct (kji_indices r)"
  by (simp add: kji_indices_def distinct_product)

lemma distinct_fluid_indices [simp]: "distinct (fluid_indices nf r)"
  by (simp add: fluid_indices_def distinct_product)

lemma length_kji_indices:
  "length (kji_indices r) = nat (ek r - sk r + 1) * (nat (ej r - sj r + 1) * nat (ei r - si r + 1))"
  by (simp add: kji_indices_def)

lemma length_fluid_indices:
  "length (fluid_indices nf r) = nat nf * length (kji_indices r)"
  by (simp add: fluid_indices_def)

subsection \<open>Element counts of the table rows\<close>

text \<open>
  A block geometry the mesh can produce: at least one cell along every axis, a ghost
  width and a number of fluid variables that are not negative.
\<close>

definition geometry_ok :: "build_config \<Rightarrow> int \<Rightarrow> int \<Rightarrow> int \<Rightarrow> bool" where
  "geometry_ok cfg nx1 nx2 nx3 =
     (0 \<le> NGHOST cfg \<and> 0 \<le> NFLUID cfg \<and> 1 \<le> nx1 \<and> 1 \<le> nx2 \<and> 1 \<le> nx3)"

fun is_x3 :: "direction \<Rightarrow> bool" where
  "is_x3 inner_x3 = True"
| "is_x3 outer_x3 = True"
| "is_x3 d = False"

lemma int_length_kji:
  "si r \<le> ei r + 1 \<Longrightarrow> sj r \<le> ej r + 1 \<Longrightarrow> sk r \<le> ek r + 1 \<Longrightarrow>
   int (length (kji_indices r)) = (ek r - sk r + 1) * ((ej r - sj r + 1) * (ei r - si r + 1))"
  by (simp add: length_kji_indices)

lemma kji_count_fluid_send:
  assumes "geometry_ok cfg nx1 nx2 nx3"
  shows "int (length (kji_indices (fluid_send_rows (NGHOST cfg) (interior_bounds cfg nx1 nx2 nx3) d)))
         = (case d of
              inner_x1 \<Rightarrow> NGHOST cfg * nx2 * nx3 | outer_x1 \<Rightarrow> NGHOST cfg * nx2 * nx3
            | inner_x2 \<Rightarrow> (nx1 + 2 * NGHOST cfg) * NGHOST cfg * nx3
            | outer_x2 \<Rightarrow> (nx1 + 2 * NGHOST cfg) * NGHOST cfg * nx3
            | _ \<Rightarrow> (nx1 + 2 * NGHOST cfg) * (if nx2 > 1 then nx2 + 2 * NGHOST cfg else NGHOST cfg + 1)
                     * NGHOST cfg)"
  using assms
  by (cases d) (auto simp add: geometry_ok_def int_length_kji interior_bounds_def se_def algebra_simps)

lemma kji_count_fluid_recv:
  "length (kji_indices (fluid_recv_rows g b (oside d))) = length (kji_indices (fluid_send_rows g b d))"
  by (cases d) (simp_all add: length_kji_indices se_def)

subsection \<open>Fluid: sending and receiving\<close>

text \<open>
  The search \<^verbatim>\<open>while(pbl!=NULL) { if(pbl->gid==gid) break; pbl=pbl->next; }\<close> from the
  head of the block list: the position of the first block with that global id, or \<open>None\<close>
  when the loop ends with the null pointer.
\<close>

fun find_block :: "'a MeshBlock list \<Rightarrow> int \<Rightarrow> nat option" where
  "find_block [] g = None"
| "find_block (b # bs) g = (if block_gid b = g then Some 0 else map_option Suc (find_block bs g))"

text \<open>
  \<^verbatim>\<open>std::memcpy(dst, src, n*sizeof(Real))\<close> on two buffers: the first \<open>n\<close> elements of
  \<open>dst\<close> are replaced. Copying more than either buffer holds is undefined.
\<close>

definition memcpy :: "'a list \<Rightarrow> 'a list \<Rightarrow> int \<Rightarrow> failure + 'a list" where
  "memcpy dst src n =
     (if n < 0 \<or> nat n > length src \<or> nat n > length dst then Inl buffer_overrun
      else Inr (take (nat n) src @ drop (nat n) dst))"

text \<open>\<^verbatim>\<open>MPI_Isend(buf, count, MPI_ATHENA_REAL, dest, tag, ...)\<close>\<close>

definition isend :: "'a Mesh \<Rightarrow> 'a list \<Rightarrow> int \<Rightarrow> int \<Rightarrow> int \<Rightarrow> failure + 'a Mesh" where
  "isend m buf count dest tag =
     (if count < 0 \<or> nat count > length buf then Inl buffer_overrun
      else Inr (m\<lparr>mpi_sent := mpi_sent m @ [(dest, tag, take (nat count) buf)]\<rparr>))"

text \<open>
  \<^verbatim>\<open>MPI_Wait\<close> on a receive request: it returns when the message has arrived, which is then
  in the front of the receive buffer.
\<close>

definition mpi_wait_recv :: "'a environment \<Rightarrow> request option \<Rightarrow> 'a list \<Rightarrow> failure + 'a list" where
  "mpi_wait_recv env req buf =
     (case req of
        None \<Rightarrow> Inl invalid_request
      | Some rq \<Rightarrow>
          (case arrives env (req_rank rq) (req_tag rq) of
             None \<Rightarrow> Inl wait_never_returns
           | Some m \<Rightarrow>
               if int (length m) > req_count rq \<or> length m > length buf then Inl message_truncated
               else Inr (m @ drop (length m) buf)))"

definition put_block :: "'a Mesh \<Rightarrow> nat \<Rightarrow> 'a MeshBlock \<Rightarrow> 'a Mesh" where
  "put_block m a blk = m\<lparr>pblock := (pblock m)[a := blk]\<rparr>"

text \<open>
  \<^verbatim>\<open>void BoundaryValues::LoadAndSendFluidBoundaryBuffer(enum direction dir,
  AthenaArray<Real> &src, int flag)\<close>, called on the \<open>b\<close>-th block of the mesh.
\<close>

definition LoadAndSendFluidBoundaryBuffer ::
  "build_config \<Rightarrow> range_table \<Rightarrow> 'a environment \<Rightarrow> 'a Mesh \<Rightarrow> nat \<Rightarrow> direction
     \<Rightarrow> 'a AthenaArray \<Rightarrow> int \<Rightarrow> failure + 'a Mesh" where
  "LoadAndSendFluidBoundaryBuffer cfg t env mesh b dir src flag =
     (if b \<ge> length (pblock mesh) then Inl null_block
      else
        let pmb = pblock mesh ! b in
        if gid (neighbor pmb dir) = - 1 then Inr mesh
        else
          let (sendbuf, p) = pack_fluid (NFLUID cfg) (fluid_send_se t dir) src
                               (fluid_send (pbval pmb) dir, 0) in
          if p > length (fluid_send (pbval pmb) dir) then Inl buffer_overrun
          else
            let mesh1 = put_block mesh b
                  (pmb\<lparr>pbval := (pbval pmb)\<lparr>fluid_send := (fluid_send (pbval pmb))(dir := sendbuf)\<rparr>\<rparr>)
            in
            if rank (neighbor pmb dir) = myrank env then
              (case find_block (pblock mesh1) (gid (neighbor pmb dir)) of
                 None \<Rightarrow> Inl null_block
               | Some a \<Rightarrow>
                   let pbl = pblock mesh1 ! a in
                   bindR (memcpy (fluid_recv (pbval pbl) (oside dir)) sendbuf (fluid_bufsize t dir))
                     (\<lambda>recvbuf.
                        Inr (put_block mesh1 a
                          (pbl\<lparr>pbval := (pbval pbl)
                             \<lparr>fluid_recv := (fluid_recv (pbval pbl))(oside dir := recvbuf),
                              fluid_flag := (fluid_flag (pbval pbl))(oside dir := True)\<rparr>\<rparr>))))
            else if MPI_PARALLEL cfg then
              isend mesh1 sendbuf (fluid_bufsize t dir) (rank (neighbor pmb dir))
                (CreateMPITag env (lid (neighbor pmb dir)) flag (oside_index dir) tag_fluid 0 0)
            else Inr mesh1)"

text \<open>
  \<^verbatim>\<open>bool BoundaryValues::ReceiveAndSetFluidBoundary(enum direction dir,
  AthenaArray<Real> &dst)\<close>: the returned value, the array and the block afterwards.
\<close>

definition ReceiveAndSetFluidBoundary ::
  "build_config \<Rightarrow> range_table \<Rightarrow> 'a environment \<Rightarrow> 'a MeshBlock \<Rightarrow> direction \<Rightarrow> 'a AthenaArray
     \<Rightarrow> failure + (bool \<times> 'a AthenaArray \<times> 'a MeshBlock)" where
  "ReceiveAndSetFluidBoundary cfg t env pmb dir dst =
     (if gid (neighbor pmb dir) = - 1 then
        (if FluidBoundary (pbval pmb) dir = NULL then Inl null_function_call
         else Inr (True, call_fluid env (FluidBoundary (pbval pmb) dir) pmb dst, pmb))
      else
        bindR (if MPI_PARALLEL cfg \<and> \<not> fluid_flag (pbval pmb) dir
                  \<and> rank (neighbor pmb dir) \<noteq> myrank env
               then mpi_wait_recv env (req_fluid_recv (pbval pmb) dir) (fluid_recv (pbval pmb) dir)
               else Inr (fluid_recv (pbval pmb) dir))
          (\<lambda>recvbuf.
             let (dst', p) = unpack_fluid (NFLUID cfg) (fluid_recv_se t dir) recvbuf (dst, 0) in
             if p > length recvbuf then Inl buffer_overrun
             else Inr (True, dst',
                       pmb\<lparr>pbval := (pbval pmb)
                         \<lparr>fluid_recv := (fluid_recv (pbval pmb))(dir := recvbuf),
                          fluid_flag := (fluid_flag (pbval pmb))(dir := False)\<rparr>\<rparr>)))"

lemma find_block_Some:
  "find_block bs g = Some a \<Longrightarrow> a < length bs \<and> block_gid (bs ! a) = g"
  by (induction bs arbitrary: a) (auto split: if_splits)

lemma find_block_cong:
  "map block_gid bs = map block_gid bs' \<Longrightarrow> find_block bs g = find_block bs' g"
proof (induction bs arbitrary: bs')
  case Nil
  then show ?case by simp
next
  case (Cons b bs)
  then obtain c cs where "bs' = c # cs" by (cases bs') auto
  with Cons show ?case by auto
qed

lemma find_block_update:
  "block_gid blk = block_gid (bs ! b) \<Longrightarrow> find_block (bs[b := blk]) g = find_block bs g"
proof (rule find_block_cong)
  assume g: "block_gid blk = block_gid (bs ! b)"
  show "map block_gid (bs[b := blk]) = map block_gid bs"
  proof (cases "b < length bs")
    case True
    with g show ?thesis by (simp add: map_update list_update_same_conv)
  next
    case False
    then have "bs[b := blk] = bs" by (intro list_update_beyond) simp
    then show ?thesis by simp
  qed
qed

lemma pack_fluid_result:
  "length (fluid_indices nf r) \<le> length buf \<Longrightarrow>
   pack_fluid nf r src (buf, 0)
     = (map src (fluid_indices nf r) @ drop (length (fluid_indices nf r)) buf, length (fluid_indices nf r))"
  by (simp add: pack_fluid_fold fold_put)


lemma fluid_indices_count:
  assumes "geometry_ok cfg nx1 nx2 nx3"
  shows "int (length (fluid_indices (NFLUID cfg) (fluid_send_se (boundary_table cfg nx1 nx2 nx3) d)))
         = NFLUID cfg *
           (case d of
              inner_x1 \<Rightarrow> NGHOST cfg * nx2 * nx3 | outer_x1 \<Rightarrow> NGHOST cfg * nx2 * nx3
            | inner_x2 \<Rightarrow> (nx1 + 2 * NGHOST cfg) * NGHOST cfg * nx3
            | outer_x2 \<Rightarrow> (nx1 + 2 * NGHOST cfg) * NGHOST cfg * nx3
            | _ \<Rightarrow> (nx1 + 2 * NGHOST cfg) * (if nx2 > 1 then nx2 + 2 * NGHOST cfg else NGHOST cfg + 1)
                     * NGHOST cfg)"
proof -
  have nf: "0 \<le> NFLUID cfg" using assms by (simp add: geometry_ok_def)
  have "int (length (fluid_indices (NFLUID cfg) (fluid_send_se (boundary_table cfg nx1 nx2 nx3) d)))
        = NFLUID cfg * int (length (kji_indices (fluid_send_rows (NGHOST cfg) (interior_bounds cfg nx1 nx2 nx3) d)))"
    using nf by (simp add: length_fluid_indices)
  then show ?thesis
    by (simp only: kji_count_fluid_send[OF assms])
qed

lemma fluid_send_count_eq:
  assumes "geometry_ok cfg nx1 nx2 nx3" and "is_x3 d \<longrightarrow> nx2 > 1"
  shows "int (length (fluid_indices (NFLUID cfg) (fluid_send_se (boundary_table cfg nx1 nx2 nx3) d)))
         = fluid_bufsize (boundary_table cfg nx1 nx2 nx3) d"
  unfolding fluid_indices_count[OF assms(1)]
  using assms(2) by (cases d) simp_all

lemma fluid_send_count_le:
  assumes "geometry_ok cfg nx1 nx2 nx3"
  shows "int (length (fluid_indices (NFLUID cfg) (fluid_send_se (boundary_table cfg nx1 nx2 nx3) d)))
         \<le> fluid_bufsize (boundary_table cfg nx1 nx2 nx3) d"
proof (cases "is_x3 d \<longrightarrow> nx2 > 1")
  case True
  then show ?thesis using fluid_send_count_eq[OF assms] by simp
next
  case False
  then have x3: "is_x3 d" and n2: "nx2 = 1"
    using assms by (auto simp add: geometry_ok_def)
  have g: "0 \<le> NGHOST cfg" and nf: "0 \<le> NFLUID cfg" and n1: "1 \<le> nx1"
    using assms by (simp_all add: geometry_ok_def)
  have "(nx1 + 2 * NGHOST cfg) * (NGHOST cfg + 1) \<le> (nx1 + 2 * NGHOST cfg) * (1 + 2 * NGHOST cfg)"
    using g n1 by (intro mult_left_mono) simp_all
  then have "(nx1 + 2 * NGHOST cfg) * (NGHOST cfg + 1) * NGHOST cfg
             \<le> (nx1 + 2 * NGHOST cfg) * (1 + 2 * NGHOST cfg) * NGHOST cfg"
    using g by (intro mult_right_mono) simp_all
  then have "NFLUID cfg * ((nx1 + 2 * NGHOST cfg) * (NGHOST cfg + 1) * NGHOST cfg)
             \<le> (nx1 + 2 * NGHOST cfg) * (1 + 2 * NGHOST cfg) * NGHOST cfg * NFLUID cfg"
    using nf by (simp add: mult.commute mult_left_mono)
  then show ?thesis
    unfolding fluid_indices_count[OF assms]
    using x3 n2 by (cases d) simp_all
qed

lemma fluid_recv_count:
  "length (fluid_indices nf (fluid_recv_se (boundary_table cfg nx1 nx2 nx3) (oside d)))
   = length (fluid_indices nf (fluid_send_se (boundary_table cfg nx1 nx2 nx3) d))"
  by (simp add: length_fluid_indices kji_count_fluid_recv)

lemma unpack_fluid_result:
  "unpack_fluid nf r buf (dst, 0) =
     (fst (fold (take_into buf) (fluid_indices nf r) (dst, 0)), length (fluid_indices nf r))"
  by (simp add: unpack_fluid_fold prod_eq_iff fold_take_into_count)

text \<open>
  C2. Round trip across a pair of blocks on one process. Let block \<open>b\<close> have a neighbour
  in direction \<open>d\<close> on the same rank, found at position \<open>a\<close> of the block list, let the
  send buffer of \<open>b\<close> and the receive buffer of \<open>a\<close> have the table's size, and let \<open>a\<close>
  have a neighbour on the opposite face. Then \<^verbatim>\<open>LoadAndSendFluidBoundaryBuffer(d, src)\<close> on
  \<open>b\<close> followed by \<^verbatim>\<open>ReceiveAndSetFluidBoundary(oside d, dst)\<close> on \<open>a\<close> both return, the
  latter with \<^verbatim>\<open>true\<close>; the \<open>q\<close>-th element of the receive range of \<open>oside d\<close> in \<open>dst\<close>
  then equals the \<open>q\<close>-th element of the send range of \<open>d\<close> in \<open>src\<close> (both ranges
  enumerated in loop order and of equal length), \<open>dst\<close> is unchanged elsewhere, and the
  completion flag of \<open>a\<close> for \<open>oside d\<close> is false.
\<close>

theorem fluid_round_trip:
  fixes src dst :: "'a AthenaArray"
  assumes geo: "geometry_ok cfg nx1 nx2 nx3"
    and t: "t = boundary_table cfg nx1 nx2 nx3"
    and b: "b < length (pblock mesh)"
    and nb: "gid (neighbor (pblock mesh ! b) d) \<noteq> - 1"
    and rk: "rank (neighbor (pblock mesh ! b) d) = myrank env"
    and a: "find_block (pblock mesh) (gid (neighbor (pblock mesh ! b) d)) = Some a"
    and sb: "length (fluid_send (pbval (pblock mesh ! b)) d) = nat (fluid_bufsize t d)"
    and rb: "length (fluid_recv (pbval (pblock mesh ! a)) (oside d)) = nat (fluid_bufsize t d)"
    and na: "gid (neighbor (pblock mesh ! a) (oside d)) \<noteq> - 1"
  shows "\<exists>mesh' dst' A'.
           LoadAndSendFluidBoundaryBuffer cfg t env mesh b d src flag = Inr mesh'
         \<and> ReceiveAndSetFluidBoundary cfg t env (pblock mesh' ! a) (oside d) dst = Inr (True, dst', A')
         \<and> length (fluid_indices (NFLUID cfg) (fluid_recv_se t (oside d)))
             = length (fluid_indices (NFLUID cfg) (fluid_send_se t d))
         \<and> (\<forall>q < length (fluid_indices (NFLUID cfg) (fluid_recv_se t (oside d))).
               dst' (fluid_indices (NFLUID cfg) (fluid_recv_se t (oside d)) ! q)
                 = src (fluid_indices (NFLUID cfg) (fluid_send_se t d) ! q))
         \<and> (\<forall>idx. idx \<notin> set (fluid_indices (NFLUID cfg) (fluid_recv_se t (oside d))) \<longrightarrow> dst' idx = dst idx)
         \<and> \<not> fluid_flag (pbval A') (oside d)"
proof -
  let ?B = "pblock mesh ! b"
  let ?S = "fluid_indices (NFLUID cfg) (fluid_send_se t d)"
  let ?R = "fluid_indices (NFLUID cfg) (fluid_recv_se t (oside d))"
  let ?n = "nat (fluid_bufsize t d)"
  let ?old = "fluid_send (pbval ?B) d"
  let ?sendbuf = "map src ?S @ drop (length ?S) ?old"
  have len: "length ?R = length ?S"
    unfolding t by (rule fluid_recv_count)
  have le: "length ?S \<le> ?n"
    using fluid_send_count_le[OF geo, of d] unfolding t by linarith
  have n0: "0 \<le> fluid_bufsize t d"
    using fluid_send_count_le[OF geo, of d] unfolding t by linarith
  have pack: "pack_fluid (NFLUID cfg) (fluid_send_se t d) src (?old, 0) = (?sendbuf, length ?S)"
    using le sb by (intro pack_fluid_result) simp
  have slen: "length ?sendbuf = ?n"
    using le sb by simp
  let ?B1 = "?B\<lparr>pbval := (pbval ?B)\<lparr>fluid_send := (fluid_send (pbval ?B))(d := ?sendbuf)\<rparr>\<rparr>"
  let ?mesh1 = "put_block mesh b ?B1"
  have fb: "find_block (pblock ?mesh1) (gid (neighbor ?B d)) = Some a"
    using a by (simp add: put_block_def find_block_update)
  have alt: "a < length (pblock mesh)"
    using find_block_Some[OF a] by simp
  let ?A1 = "pblock ?mesh1 ! a"
  have A1_recv: "fluid_recv (pbval ?A1) = fluid_recv (pbval (pblock mesh ! a))"
    and A1_nb: "neighbor ?A1 = neighbor (pblock mesh ! a)"
    using alt b by (auto simp add: put_block_def nth_list_update)
  let ?recvbuf = "take ?n ?sendbuf @ drop ?n (fluid_recv (pbval ?A1) (oside d))"
  have cp: "memcpy (fluid_recv (pbval ?A1) (oside d)) ?sendbuf (fluid_bufsize t d) = Inr ?recvbuf"
    using n0 rb slen by (simp add: memcpy_def A1_recv)
  let ?A2 = "?A1\<lparr>pbval := (pbval ?A1)
                 \<lparr>fluid_recv := (fluid_recv (pbval ?A1))(oside d := ?recvbuf),
                  fluid_flag := (fluid_flag (pbval ?A1))(oside d := True)\<rparr>\<rparr>"
  let ?mesh' = "put_block ?mesh1 a ?A2"
  have send: "LoadAndSendFluidBoundaryBuffer cfg t env mesh b d src flag = Inr ?mesh'"
    unfolding LoadAndSendFluidBoundaryBuffer_def
    using b nb rk le sb by (simp add: Let_def pack fb cp del: put_block_def)
  have A2: "pblock ?mesh' ! a = ?A2"
    using alt by (simp add: put_block_def)
  have rlen: "length ?recvbuf = ?n"
    using rb slen by (simp add: A1_recv)
  let ?dst' = "fst (fold (take_into ?recvbuf) ?R (dst, 0))"
  let ?A' = "?A2\<lparr>pbval := (pbval ?A2)
                 \<lparr>fluid_recv := (fluid_recv (pbval ?A2))(oside d := ?recvbuf),
                  fluid_flag := (fluid_flag (pbval ?A2))(oside d := False)\<rparr>\<rparr>"
  have recv: "ReceiveAndSetFluidBoundary cfg t env (pblock ?mesh' ! a) (oside d) dst = Inr (True, ?dst', ?A')"
    unfolding A2 ReceiveAndSetFluidBoundary_def
    using na le len rlen by (simp add: A1_nb unpack_fluid_result)
  have vals: "?dst' (?R ! q) = src (?S ! q)" if "q < length ?R" for q
  proof -
    have "?dst' (?R ! q) = ?recvbuf ! (0 + q)"
      using that by (intro fold_take_into_nth) simp_all
    also have "\<dots> = ?sendbuf ! q"
      using that len le slen by (simp add: nth_append)
    also have "\<dots> = src (?S ! q)"
      using that len by (simp add: nth_append)
    finally show ?thesis .
  qed
  have frame: "?dst' idx = dst idx" if "idx \<notin> set ?R" for idx
    using that by (rule fold_take_into_other)
  have flag: "\<not> fluid_flag (pbval ?A') (oside d)"
    by simp
  from send recv len vals frame flag show ?thesis
    by blast
qed

text \<open>
  Two blocks of four cells in a row on one process: block 0, whose outer-x1 neighbour is
  block 1, and block 1, whose inner-x1 neighbour is block 0. Their fluid buffers have the
  two elements the table prescribes for the x1 faces.
\<close>

definition pair_block :: "int \<Rightarrow> (direction \<Rightarrow> NeighborBlock) \<Rightarrow> int MeshBlock" where
  "pair_block g nbs =
     demo_block g 4 1 1 (\<lambda>d. - 1) nbs
       (raw_storage\<lparr>fluid_send := (\<lambda>d. [0, 0]), fluid_recv := (\<lambda>d. [0, 0]),
                    fluid_flag := (\<lambda>d. False)\<rparr>)"

definition pair_mesh :: "int Mesh" where
  "pair_mesh =
     demo_mesh [pair_block 0 ((\<lambda>d. no_neighbor)(outer_x1 := local_neighbor 1)),
                pair_block 1 ((\<lambda>d. no_neighbor)(inner_x1 := local_neighbor 0))]
       (\<lambda>d. 2)"

lemma upto_6_7: "[6..7] = [6, 7::int]" and upto_2_3: "[2..3] = [2, 3::int]"
  and upto_0_0: "[0..0] = [0::int]"
  by (simp_all add: upto_rec1)

theorem fluid_round_trip_witness:
  "\<exists>mesh' dst' A'.
      LoadAndSendFluidBoundaryBuffer demo_cfg (boundary_table demo_cfg 4 1 1) demo_env pair_mesh 1
        inner_x1 (\<lambda>(n, k, j, i). i - 1) 0 = Inr mesh'
    \<and> ReceiveAndSetFluidBoundary demo_cfg (boundary_table demo_cfg 4 1 1) demo_env (pblock mesh' ! 0)
        outer_x1 (\<lambda>idx. 0) = Inr (True, dst', A')
    \<and> dst' (0, 0, 0, 6) = 1 \<and> dst' (0, 0, 0, 7) = 2 \<and> dst' (0, 0, 0, 5) = 0
    \<and> \<not> fluid_flag (pbval A') outer_x1"
proof -
  let ?t = "boundary_table demo_cfg 4 1 1"
  have R: "fluid_indices (NFLUID demo_cfg) (fluid_recv_se ?t (oside inner_x1)) = [(0, 0, 0, 6), (0, 0, 0, 7)]"
    by (simp add: fluid_indices_def kji_indices_def demo_cfg_def interior_bounds_def se_def
        upto_6_7 upto_0_0)
  have S: "fluid_indices (NFLUID demo_cfg) (fluid_send_se ?t inner_x1) = [(0, 0, 0, 2), (0, 0, 0, 3)]"
    by (simp add: fluid_indices_def kji_indices_def demo_cfg_def interior_bounds_def se_def
        upto_2_3 upto_0_0)
  have "\<exists>mesh' dst' A'.
           LoadAndSendFluidBoundaryBuffer demo_cfg ?t demo_env pair_mesh 1 inner_x1 (\<lambda>(n, k, j, i). i - 1) 0 = Inr mesh'
         \<and> ReceiveAndSetFluidBoundary demo_cfg ?t demo_env (pblock mesh' ! 0) (oside inner_x1) (\<lambda>idx. 0) = Inr (True, dst', A')
         \<and> length (fluid_indices (NFLUID demo_cfg) (fluid_recv_se ?t (oside inner_x1)))
             = length (fluid_indices (NFLUID demo_cfg) (fluid_send_se ?t inner_x1))
         \<and> (\<forall>q < length (fluid_indices (NFLUID demo_cfg) (fluid_recv_se ?t (oside inner_x1))).
               dst' (fluid_indices (NFLUID demo_cfg) (fluid_recv_se ?t (oside inner_x1)) ! q)
                 = (\<lambda>(n, k, j, i). i - 1) (fluid_indices (NFLUID demo_cfg) (fluid_send_se ?t inner_x1) ! q))
         \<and> (\<forall>idx. idx \<notin> set (fluid_indices (NFLUID demo_cfg) (fluid_recv_se ?t (oside inner_x1))) \<longrightarrow> dst' idx = (\<lambda>idx. 0) idx)
         \<and> \<not> fluid_flag (pbval A') (oside inner_x1)"
    by (rule fluid_round_trip[where ?nx1.0=4 and ?nx2.0=1 and ?nx3.0=1 and a=0])
       (simp_all add: geometry_ok_def demo_cfg_def pair_mesh_def demo_mesh_def pair_block_def
          demo_block_def local_neighbor_def no_neighbor_def demo_env_def)
  then obtain mesh' dst' A' where
      1: "LoadAndSendFluidBoundaryBuffer demo_cfg ?t demo_env pair_mesh 1 inner_x1 (\<lambda>(n, k, j, i). i - 1) 0 = Inr mesh'"
    and 2: "ReceiveAndSetFluidBoundary demo_cfg ?t demo_env (pblock mesh' ! 0) (oside inner_x1) (\<lambda>idx. 0) = Inr (True, dst', A')"
    and 3: "\<forall>q < length [(0::int, 0::int, 0::int, 6::int), (0, 0, 0, 7)].
               dst' ([(0::int, 0::int, 0::int, 6::int), (0, 0, 0, 7)] ! q)
                 = (\<lambda>(n, k, j, i). i - 1) ([(0::int, 0::int, 0::int, 2::int), (0, 0, 0, 3)] ! q)"
    and 4: "\<forall>idx. idx \<notin> set [(0::int, 0::int, 0::int, 6::int), (0, 0, 0, 7)] \<longrightarrow> dst' idx = (\<lambda>idx. 0) idx"
    and 5: "\<not> fluid_flag (pbval A') (oside inner_x1)"
    unfolding R S by blast
  have "dst' ([(0::int, 0::int, 0::int, 6::int), (0, 0, 0, 7)] ! 0) = 1"
    using 3[rule_format, of 0] by simp
  moreover have "dst' ([(0::int, 0::int, 0::int, 6::int), (0, 0, 0, 7)] ! 1) = 2"
    using 3[rule_format, of 1] by simp
  moreover have "dst' (0, 0, 0, 5) = 0"
    using 4[rule_format, of "(0, 0, 0, 5)"] by simp
  ultimately have "dst' (0, 0, 0, 6) = 1 \<and> dst' (0, 0, 0, 7) = 2 \<and> dst' (0, 0, 0, 5) = 0"
    by simp
  with 1 2 5 show ?thesis by auto
qed

subsection \<open>Field: packing, sending and receiving\<close>

text \<open>
  The three loop nests of \<^verbatim>\<open>LoadAndSendFieldBoundaryBuffer\<close> over \<^verbatim>\<open>x1f\<close>, \<^verbatim>\<open>x2f\<close> and
  \<^verbatim>\<open>x3f\<close>, with one running index \<open>p\<close>; and the three of \<^verbatim>\<open>ReceiveAndSetFieldBoundary\<close>,
  which write through the references \<^verbatim>\<open>x1dst\<close>, \<^verbatim>\<open>x2dst\<close>, \<^verbatim>\<open>x3dst\<close>.
\<close>

definition pack_field :: "(face \<Rightarrow> bounds) \<Rightarrow> 'a InterfaceField \<Rightarrow> 'a list \<times> nat \<Rightarrow> 'a list \<times> nat" where
  "pack_field rows src s =
     (let s1 = for_kji (rows x1face) (\<lambda>k j i. put (x1f src (0, k, j, i))) s;
          s2 = for_kji (rows x2face) (\<lambda>k j i. put (x2f src (0, k, j, i))) s1
      in for_kji (rows x3face) (\<lambda>k j i. put (x3f src (0, k, j, i))) s2)"

definition unpack_field ::
  "(face \<Rightarrow> bounds) \<Rightarrow> 'a list \<Rightarrow> 'a InterfaceField \<Rightarrow> 'a InterfaceField \<times> nat" where
  "unpack_field rows buf dst =
     (let (x1dst, p1) = for_kji (rows x1face) (\<lambda>k j i. take_into buf (0, k, j, i)) (x1f dst, 0);
          (x2dst, p2) = for_kji (rows x2face) (\<lambda>k j i. take_into buf (0, k, j, i)) (x2f dst, p1);
          (x3dst, p3) = for_kji (rows x3face) (\<lambda>k j i. take_into buf (0, k, j, i)) (x3f dst, p2)
      in (\<lparr>x1f = x1dst, x2f = x2dst, x3f = x3dst\<rparr>, p3))"

definition LoadAndSendFieldBoundaryBuffer ::
  "build_config \<Rightarrow> range_table \<Rightarrow> 'a environment \<Rightarrow> 'a Mesh \<Rightarrow> nat \<Rightarrow> direction
     \<Rightarrow> 'a InterfaceField \<Rightarrow> int \<Rightarrow> failure + 'a Mesh" where
  "LoadAndSendFieldBoundaryBuffer cfg t env mesh b dir src flag =
     (if b \<ge> length (pblock mesh) then Inl null_block
      else
        let pmb = pblock mesh ! b in
        if gid (neighbor pmb dir) = - 1 then Inr mesh
        else
          let (sendbuf, p) = pack_field (field_send_se t dir) src (field_send (pbval pmb) dir, 0) in
          if p > length (field_send (pbval pmb) dir) then Inl buffer_overrun
          else
            let mesh1 = put_block mesh b
                  (pmb\<lparr>pbval := (pbval pmb)\<lparr>field_send := (field_send (pbval pmb))(dir := sendbuf)\<rparr>\<rparr>)
            in
            if rank (neighbor pmb dir) = myrank env then
              (case find_block (pblock mesh1) (gid (neighbor pmb dir)) of
                 None \<Rightarrow> Inl null_block
               | Some a \<Rightarrow>
                   let pbl = pblock mesh1 ! a in
                   bindR (memcpy (field_recv (pbval pbl) (oside dir)) sendbuf (field_bufsize t dir))
                     (\<lambda>recvbuf.
                        Inr (put_block mesh1 a
                          (pbl\<lparr>pbval := (pbval pbl)
                             \<lparr>field_recv := (field_recv (pbval pbl))(oside dir := recvbuf),
                              field_flag := (field_flag (pbval pbl))(oside dir := True)\<rparr>\<rparr>))))
            else if MPI_PARALLEL cfg then
              isend mesh1 sendbuf (field_bufsize t dir) (rank (neighbor pmb dir))
                (CreateMPITag env (lid (neighbor pmb dir)) flag (oside_index dir) tag_field 0 0)
            else Inr mesh1)"

definition ReceiveAndSetFieldBoundary ::
  "build_config \<Rightarrow> range_table \<Rightarrow> 'a environment \<Rightarrow> 'a MeshBlock \<Rightarrow> direction \<Rightarrow> 'a InterfaceField
     \<Rightarrow> failure + (bool \<times> 'a InterfaceField \<times> 'a MeshBlock)" where
  "ReceiveAndSetFieldBoundary cfg t env pmb dir dst =
     (if gid (neighbor pmb dir) = - 1 then
        (if FieldBoundary (pbval pmb) dir = NULL then Inl null_function_call
         else Inr (True, call_field env (FieldBoundary (pbval pmb) dir) pmb dst, pmb))
      else
        bindR (if MPI_PARALLEL cfg \<and> \<not> field_flag (pbval pmb) dir
                  \<and> rank (neighbor pmb dir) \<noteq> myrank env
               then mpi_wait_recv env (req_field_recv (pbval pmb) dir) (field_recv (pbval pmb) dir)
               else Inr (field_recv (pbval pmb) dir))
          (\<lambda>recvbuf.
             let (dst', p) = unpack_field (field_recv_se t dir) recvbuf dst in
             if p > length recvbuf then Inl buffer_overrun
             else Inr (True, dst',
                       pmb\<lparr>pbval := (pbval pmb)
                         \<lparr>field_recv := (field_recv (pbval pmb))(dir := recvbuf),
                          field_flag := (field_flag (pbval pmb))(dir := False)\<rparr>\<rparr>)))"

subsection \<open>Directions without a neighbour\<close>

text \<open>
  C8. When the neighbour entry of a direction holds the global id -1, the send routines
  (fluid and field) return at once and leave the whole mesh, and with it every buffer and
  completion flag, as it was. The receive routines call the boundary function registered
  for the direction once on the destination array and return \<^verbatim>\<open>true\<close>: the array
  afterwards is the function's result on the array before, whatever the receive buffer
  holds, and the block with its buffers and flags is unchanged.
\<close>

theorem physical_boundary_no_traffic:
  assumes "b < length (pblock mesh)"
    and "pmb = pblock mesh ! b"
    and "gid (neighbor pmb dir) = - 1"
    and "FluidBoundary (pbval pmb) dir \<noteq> NULL"
    and "FieldBoundary (pbval pmb) dir \<noteq> NULL"
  shows "LoadAndSendFluidBoundaryBuffer cfg t env mesh b dir src flag = Inr mesh
       \<and> LoadAndSendFieldBoundaryBuffer cfg t env mesh b dir fsrc flag = Inr mesh
       \<and> ReceiveAndSetFluidBoundary cfg t env pmb dir dst
           = Inr (True, call_fluid env (FluidBoundary (pbval pmb) dir) pmb dst, pmb)
       \<and> ReceiveAndSetFieldBoundary cfg t env pmb dir fdst
           = Inr (True, call_field env (FieldBoundary (pbval pmb) dir) pmb fdst, pmb)"
  using assms
  by (simp add: LoadAndSendFluidBoundaryBuffer_def LoadAndSendFieldBoundaryBuffer_def
      ReceiveAndSetFluidBoundary_def ReceiveAndSetFieldBoundary_def)

subsection \<open>Edge flux: segments\<close>

text \<open>
  The component numbers of the edge fluxes on the three face arrays (an \<^verbatim>\<open>enum\<close> of a
  header that is not at hand).
\<close>

record edge_components =
  X1E2 :: int
  X1E3 :: int
  X2E1 :: int
  X2E3 :: int
  X3E1 :: int
  X3E2 :: int

text \<open>
  Every run of loops in the edge-flux routines treats one face array (\<^verbatim>\<open>x1f\<close>, \<^verbatim>\<open>x2f\<close> or
  \<^verbatim>\<open>x3f\<close>), one component number and a box of indices in which the coordinate normal to
  the exchanged face is fixed (written here as the range from \<open>c\<close> to \<open>c\<close>); in 2D the
  \<open>k\<close> coordinate is fixed to \<^verbatim>\<open>ks\<close> as well. The tables below list these runs per
  direction, for the 2D branch (\<^verbatim>\<open>nx3 == 1\<close>) and the 3D branch. The send loops use the
  first or last interior plane for \<open>c\<close>, the receive loops the plane just outside.
\<close>

type_synonym segment = "face \<times> int \<times> bounds"

fun eflux_segments_2d :: "edge_components \<Rightarrow> interior \<Rightarrow> int \<Rightarrow> direction \<Rightarrow> segment list" where
  "eflux_segments_2d ec b c inner_x1 = [(x2face, X2E3 ec, se c c (b_js b) (b_je b + 1) (b_ks b) (b_ks b))]"
| "eflux_segments_2d ec b c outer_x1 = [(x2face, X2E3 ec, se c c (b_js b) (b_je b + 1) (b_ks b) (b_ks b))]"
| "eflux_segments_2d ec b c inner_x2 = [(x1face, X1E3 ec, se (b_is b) (b_ie b + 1) c c (b_ks b) (b_ks b))]"
| "eflux_segments_2d ec b c outer_x2 = [(x1face, X1E3 ec, se (b_is b) (b_ie b + 1) c c (b_ks b) (b_ks b))]"
| "eflux_segments_2d ec b c inner_x3 = []"
| "eflux_segments_2d ec b c outer_x3 = []"

fun eflux_segments_3d :: "edge_components \<Rightarrow> interior \<Rightarrow> int \<Rightarrow> direction \<Rightarrow> segment list" where
  "eflux_segments_3d ec b c inner_x1 =
     [(x2face, X2E3 ec, se c c (b_js b) (b_je b + 1) (b_ks b) (b_ke b)),
      (x3face, X3E2 ec, se c c (b_js b) (b_je b) (b_ks b) (b_ke b + 1))]"
| "eflux_segments_3d ec b c outer_x1 =
     [(x2face, X2E3 ec, se c c (b_js b) (b_je b + 1) (b_ks b) (b_ke b)),
      (x3face, X3E2 ec, se c c (b_js b) (b_je b) (b_ks b) (b_ke b + 1))]"
| "eflux_segments_3d ec b c inner_x2 =
     [(x1face, X1E3 ec, se (b_is b) (b_ie b + 1) c c (b_ks b) (b_ke b)),
      (x3face, X3E1 ec, se (b_is b) (b_ie b) c c (b_ks b) (b_ke b + 1))]"
| "eflux_segments_3d ec b c outer_x2 =
     [(x1face, X1E3 ec, se (b_is b) (b_ie b + 1) c c (b_ks b) (b_ke b)),
      (x3face, X3E1 ec, se (b_is b) (b_ie b) c c (b_ks b) (b_ke b + 1))]"
| "eflux_segments_3d ec b c inner_x3 =
     [(x1face, X1E2 ec, se (b_is b) (b_ie b + 1) (b_js b) (b_je b) c c),
      (x2face, X2E1 ec, se (b_is b) (b_ie b) (b_js b) (b_je b + 1) c c)]"
| "eflux_segments_3d ec b c outer_x3 =
     [(x1face, X1E2 ec, se (b_is b) (b_ie b + 1) (b_js b) (b_je b) c c),
      (x2face, X2E1 ec, se (b_is b) (b_ie b) (b_js b) (b_je b + 1) c c)]"


fun recv_plane :: "interior \<Rightarrow> direction \<Rightarrow> int" where
  "recv_plane b inner_x1 = b_is b - 1"
| "recv_plane b outer_x1 = b_ie b + 1"
| "recv_plane b inner_x2 = b_js b - 1"
| "recv_plane b outer_x2 = b_je b + 1"
| "recv_plane b inner_x3 = b_ks b - 1"
| "recv_plane b outer_x3 = b_ke b + 1"

definition eflux_segments :: "edge_components \<Rightarrow> 'a MeshBlock \<Rightarrow> int \<Rightarrow> direction \<Rightarrow> segment list" where
  "eflux_segments ec pmb c d =
     (if bs_nx3 pmb = 1 then eflux_segments_2d ec (bnd pmb) c d
      else eflux_segments_3d ec (bnd pmb) c d)"

text \<open>
  The directions treated by the branch \<^verbatim>\<open>if(nx3==1) { 2D } else { 3D }\<close>, and those of
  the loops \<^verbatim>\<open>for(dir=0;dir<ndir;dir++)\<close> with \<^verbatim>\<open>ndir=4; if(nx3>1) ndir=6;\<close>.
\<close>

definition branch_dirs :: "'a MeshBlock \<Rightarrow> direction list" where
  "branch_dirs pmb = (if bs_nx3 pmb = 1 then take 4 all_directions else all_directions)"

definition ndir_dirs :: "'a MeshBlock \<Rightarrow> direction list" where
  "ndir_dirs pmb = take (if bs_nx3 pmb > 1 then 6 else 4) all_directions"

fun face_array :: "face \<Rightarrow> 'a InterfaceField \<Rightarrow> 'a AthenaArray" where
  "face_array x1face fld = x1f fld"
| "face_array x2face fld = x2f fld"
| "face_array x3face fld = x3f fld"

fun set_face_array :: "face \<Rightarrow> 'a AthenaArray \<Rightarrow> 'a InterfaceField \<Rightarrow> 'a InterfaceField" where
  "set_face_array x1face a fld = fld\<lparr>x1f := a\<rparr>"
| "set_face_array x2face a fld = fld\<lparr>x2f := a\<rparr>"
| "set_face_array x3face a fld = fld\<lparr>x3f := a\<rparr>"

subsection \<open>Edge flux: packing and sending\<close>





subsection \<open>Edge flux: receiving\<close>

text \<open>
  One segment of the receive loops: first the flux values into \<^verbatim>\<open>fdst.x?f(E,k,j,i)\<close>,
  then the weights into \<^verbatim>\<open>wdst.x?f(k,j,i)\<close>. The two fields are distinct objects.
\<close>

definition unpack_segment ::
  "'a list \<Rightarrow> segment \<Rightarrow> 'a InterfaceField \<times> 'a InterfaceField \<times> nat
     \<Rightarrow> 'a InterfaceField \<times> 'a InterfaceField \<times> nat" where
  "unpack_segment buf seg s =
     (case seg of (f, e, r) \<Rightarrow>
      case s of (fdst, wdst, p) \<Rightarrow>
        let (fa, p1) = for_kji r (\<lambda>k j i. take_into buf (e, k, j, i)) (face_array f fdst, p);
            (wa, p2) = for_kji r (\<lambda>k j i. take_into buf (0, k, j, i)) (face_array f wdst, p1)
        in (set_face_array f fa fdst, set_face_array f wa wdst, p2))"

text \<open>
  The block of one direction: the boundary function, or the unpack loops; then
  \<^verbatim>\<open>eflux_flag_[d][0][0] = false\<close> in both cases.
\<close>

definition recv_eflux_dir ::
  "'a environment \<Rightarrow> edge_components \<Rightarrow> direction
     \<Rightarrow> 'a InterfaceField \<times> 'a InterfaceField \<times> 'a MeshBlock
     \<Rightarrow> failure + 'a InterfaceField \<times> 'a InterfaceField \<times> 'a MeshBlock" where
  "recv_eflux_dir env ec d s =
     (case s of (fdst, wdst, pmb) \<Rightarrow>
        bindR (if gid (neighbor pmb d) = - 1 then
                 (if EFluxBoundary (pbval pmb) d = NULL then Inl null_function_call
                  else Inr (call_eflux env (EFluxBoundary (pbval pmb) d) pmb (fdst, wdst)))
               else
                 (let (fdst', wdst', p) =
                        fold (unpack_segment (eflux_recv (pbval pmb) d))
                          (eflux_segments ec pmb (recv_plane (bnd pmb) d) d) (fdst, wdst, 0) in
                  if p > length (eflux_recv (pbval pmb) d) then Inl buffer_overrun
                  else Inr (fdst', wdst')))
          (\<lambda>(fdst', wdst').
             Inr (fdst', wdst',
                  pmb\<lparr>pbval := (pbval pmb)\<lparr>eflux_flag := (eflux_flag (pbval pmb))(d := False)\<rparr>\<rparr>)))"

text \<open>The body of the loop that waits for the remote edge-flux messages (MPI only).\<close>

definition wait_eflux_dir :: "'a environment \<Rightarrow> direction \<Rightarrow> 'a MeshBlock \<Rightarrow> failure + 'a MeshBlock" where
  "wait_eflux_dir env dir pmb =
     (if gid (neighbor pmb dir) \<noteq> - 1 \<and> rank (neighbor pmb dir) \<noteq> myrank env then
        bindR (mpi_wait_recv env (req_eflux_recv (pbval pmb) dir) (eflux_recv (pbval pmb) dir))
          (\<lambda>recvbuf.
             Inr (pmb\<lparr>pbval := (pbval pmb)
                    \<lparr>eflux_recv := (eflux_recv (pbval pmb))(dir := recvbuf),
                     eflux_flag := (eflux_flag (pbval pmb))(dir := True)\<rparr>\<rparr>))
      else Inr pmb)"

text \<open>
  \<^verbatim>\<open>bool BoundaryValues::ReceiveAndSetEFluxBoundary(InterfaceField &fdst,
  InterfaceField &wdst)\<close>
\<close>

definition ReceiveAndSetEFluxBoundary ::
  "build_config \<Rightarrow> 'a environment \<Rightarrow> edge_components \<Rightarrow> 'a MeshBlock
     \<Rightarrow> 'a InterfaceField \<Rightarrow> 'a InterfaceField
     \<Rightarrow> failure + (bool \<times> 'a InterfaceField \<times> 'a InterfaceField \<times> 'a MeshBlock)" where
  "ReceiveAndSetEFluxBoundary cfg env ec pmb fdst wdst =
     (if bs_nx2 pmb = 1 then Inr (True, fdst, wdst, pmb)
      else
        bindR (if MPI_PARALLEL cfg then for_dirs (ndir_dirs pmb) (wait_eflux_dir env) pmb
               else Inr pmb) (\<lambda>pmb1.
        bindR (for_dirs (branch_dirs pmb1) (recv_eflux_dir env ec) (fdst, wdst, pmb1)) (\<lambda>s.
        Inr (True, s))))"

subsection \<open>Number of elements written by the pack loops\<close>











subsection \<open>The value returned by the receive routines\<close>

text \<open>
  C10. Whatever the direction and the state before the call, none of
  \<^verbatim>\<open>ReceiveAndSetFluidBoundary\<close>, \<^verbatim>\<open>ReceiveAndSetFieldBoundary\<close> and
  \<^verbatim>\<open>ReceiveAndSetEFluxBoundary\<close> returns \<^verbatim>\<open>false\<close>: a call that returns, returns \<^verbatim>\<open>true\<close>.
  (A call that does not return is one that waits for a remote message that never arrives,
  or one that leaves defined behaviour.)
\<close>

theorem receive_and_set_never_false:
  "(\<forall>x. ReceiveAndSetFluidBoundary cfg t env pmb dir dst \<noteq> Inr (False, x))
   \<and> (\<forall>x. ReceiveAndSetFieldBoundary cfg t env pmb dir fdst \<noteq> Inr (False, x))
   \<and> (\<forall>x. ReceiveAndSetEFluxBoundary cfg env ec pmb fdst wdst \<noteq> Inr (False, x))"
proof (intro conjI allI)
  fix x
  show "ReceiveAndSetFluidBoundary cfg t env pmb dir dst \<noteq> Inr (False, x)"
    by (auto simp add: ReceiveAndSetFluidBoundary_def bindR_def Let_def
        split: sum.splits prod.splits if_splits)
next
  fix x
  show "ReceiveAndSetFieldBoundary cfg t env pmb dir fdst \<noteq> Inr (False, x)"
    by (auto simp add: ReceiveAndSetFieldBoundary_def bindR_def Let_def
        split: sum.splits prod.splits if_splits)
next
  fix x
  show "ReceiveAndSetEFluxBoundary cfg env ec pmb fdst wdst \<noteq> Inr (False, x)"
    by (auto simp add: ReceiveAndSetEFluxBoundary_def bindR_def
        split: sum.splits if_splits)
qed

text \<open>
  Calls that do return: the fluid routine on block 0 of the pair above (neighbour on the
  outer-x1 face), the field routine on a face without neighbour that has an outflow
  function, and the edge-flux routine on a 2D block without neighbours whose four faces
  have the default edge-flux functions.
\<close>

definition lone_block :: "int MeshBlock" where
  "lone_block =
     demo_block 0 4 4 1 (\<lambda>d. 2) (\<lambda>d. no_neighbor)
       (raw_storage\<lparr>FluidBoundary := Outflow, FieldBoundary := Outflow,
                    EFluxBoundary := DefaultEFlux\<rparr>)"

definition demo_edges :: edge_components where
  "demo_edges = \<lparr>X1E2 = 0, X1E3 = 1, X2E1 = 1, X2E3 = 0, X3E1 = 0, X3E2 = 1\<rparr>"

definition zero_field :: "int InterfaceField" where
  "zero_field = \<lparr>x1f = (\<lambda>idx. 0), x2f = (\<lambda>idx. 0), x3f = (\<lambda>idx. 0)\<rparr>"

theorem receive_and_set_never_false_witness:
  "fst (projr (ReceiveAndSetFluidBoundary demo_cfg (boundary_table demo_cfg 4 1 1) demo_env
          (pblock pair_mesh ! 0) outer_x1 (\<lambda>idx. 0)))
   \<and> ReceiveAndSetFieldBoundary demo_cfg (boundary_table demo_cfg 4 4 1) demo_env lone_block inner_x2 zero_field
       = Inr (True, zero_field, lone_block)
   \<and> ReceiveAndSetEFluxBoundary demo_cfg demo_env demo_edges lone_block zero_field zero_field
       = Inr (True, zero_field, zero_field,
              lone_block\<lparr>pbval := (pbval lone_block)\<lparr>eflux_flag :=
                 (\<lambda>d. True)(inner_x1 := False, outer_x1 := False, inner_x2 := False,
                            outer_x2 := False)\<rparr>\<rparr>)"
proof -
  have 1: "\<not> isl (ReceiveAndSetFluidBoundary demo_cfg (boundary_table demo_cfg 4 1 1) demo_env
          (pblock pair_mesh ! 0) outer_x1 (\<lambda>idx. 0))"
    by (simp add: ReceiveAndSetFluidBoundary_def pair_mesh_def demo_mesh_def pair_block_def
        demo_block_def local_neighbor_def demo_cfg_def unpack_fluid_result length_fluid_indices
        length_kji_indices interior_bounds_def se_def)
  then obtain r y where "ReceiveAndSetFluidBoundary demo_cfg (boundary_table demo_cfg 4 1 1) demo_env
          (pblock pair_mesh ! 0) outer_x1 (\<lambda>idx. 0) = Inr (r, y)"
    by (cases "ReceiveAndSetFluidBoundary demo_cfg (boundary_table demo_cfg 4 1 1) demo_env
          (pblock pair_mesh ! 0) outer_x1 (\<lambda>idx. 0)") auto
  with receive_and_set_never_false[of demo_cfg "boundary_table demo_cfg 4 1 1" demo_env
        "pblock pair_mesh ! 0" outer_x1 "\<lambda>idx. 0"]
  have a: "fst (projr (ReceiveAndSetFluidBoundary demo_cfg (boundary_table demo_cfg 4 1 1) demo_env
          (pblock pair_mesh ! 0) outer_x1 (\<lambda>idx. 0)))"
    by (cases r) auto
  have b: "ReceiveAndSetFieldBoundary demo_cfg (boundary_table demo_cfg 4 4 1) demo_env lone_block inner_x2 zero_field
       = Inr (True, zero_field, lone_block)"
    by (simp add: ReceiveAndSetFieldBoundary_def lone_block_def demo_block_def no_neighbor_def
        demo_env_def)
  have c: "ReceiveAndSetEFluxBoundary demo_cfg demo_env demo_edges lone_block zero_field zero_field
       = Inr (True, zero_field, zero_field,
              lone_block\<lparr>pbval := (pbval lone_block)\<lparr>eflux_flag :=
                 (\<lambda>d. True)(inner_x1 := False, outer_x1 := False, inner_x2 := False,
                            outer_x2 := False)\<rparr>\<rparr>)"
    by (simp add: ReceiveAndSetEFluxBoundary_def lone_block_def demo_block_def no_neighbor_def
        demo_env_def demo_cfg_def branch_dirs_def all_directions_def recv_eflux_dir_def
        raw_storage_def)
  from a b c show ?thesis by blast
qed

theorem physical_boundary_no_traffic_witness:
  "LoadAndSendFluidBoundaryBuffer demo_cfg (boundary_table demo_cfg 4 4 1) demo_env
      (demo_mesh [lone_block] (\<lambda>d. 2)) 0 inner_x1 (\<lambda>idx. 7) 0 = Inr (demo_mesh [lone_block] (\<lambda>d. 2))
   \<and> LoadAndSendFieldBoundaryBuffer demo_cfg (boundary_table demo_cfg 4 4 1) demo_env
      (demo_mesh [lone_block] (\<lambda>d. 2)) 0 inner_x1 zero_field 0 = Inr (demo_mesh [lone_block] (\<lambda>d. 2))
   \<and> ReceiveAndSetFluidBoundary demo_cfg (boundary_table demo_cfg 4 4 1) demo_env lone_block inner_x1 (\<lambda>idx. 7)
      = Inr (True, (\<lambda>idx. 7), lone_block)
   \<and> ReceiveAndSetFieldBoundary demo_cfg (boundary_table demo_cfg 4 4 1) demo_env lone_block inner_x1 zero_field
      = Inr (True, zero_field, lone_block)"
  using physical_boundary_no_traffic[where mesh="demo_mesh [lone_block] (\<lambda>d. 2)" and b=0
      and pmb=lone_block and dir=inner_x1 and cfg=demo_cfg and t="boundary_table demo_cfg 4 4 1"
      and env=demo_env and src="\<lambda>idx. 7" and dst="\<lambda>idx. 7" and fsrc=zero_field and fdst=zero_field
      and flag=0]
  by (simp add: demo_mesh_def lone_block_def demo_block_def no_neighbor_def raw_storage_def demo_env_def)

subsection \<open>Edge flux: the layout of a buffer\<close>





lemma fold_put_general:
  "p + length vs \<le> length buf \<Longrightarrow>
   fold put vs (buf, p) = (take p buf @ vs @ drop (p + length vs) buf, p + length vs)"
  by (rule fold_put)







lemma face_array_set_same [simp]: "face_array f (set_face_array f a fld) = a"
  by (cases f) simp_all

lemma face_array_set_other [simp]: "f' \<noteq> f \<Longrightarrow> face_array f' (set_face_array f a fld) = face_array f' fld"
  by (cases f; cases f') simp_all





subsection \<open>Edge flux: what the pack loops leave in the send buffers\<close>


text \<open>A block that differs from another at most in its edge-flux send buffers.\<close>

definition only_eflux_send :: "'a MeshBlock \<Rightarrow> 'a MeshBlock \<Rightarrow> bool" where
  "only_eflux_send pmb pmb' = (\<exists>S. pmb' = pmb\<lparr>pbval := (pbval pmb)\<lparr>eflux_send := S\<rparr>\<rparr>)"

lemma only_eflux_send_refl [simp]: "only_eflux_send pmb pmb"
  unfolding only_eflux_send_def by (rule exI[of _ "eflux_send (pbval pmb)"]) simp







subsection \<open>Edge flux: what the send loop leaves in the receive buffers\<close>

text \<open>
  A block that differs from another at most in its edge-flux receive buffers and flags,
  and a mesh whose blocks differ from those of another at most in this way.
\<close>

definition only_eflux_recv :: "'a MeshBlock \<Rightarrow> 'a MeshBlock \<Rightarrow> bool" where
  "only_eflux_recv blk blk' =
     (\<exists>R F. blk' = blk\<lparr>pbval := (pbval blk)\<lparr>eflux_recv := R, eflux_flag := F\<rparr>\<rparr>)"

definition send_frame :: "'a Mesh \<Rightarrow> 'a Mesh \<Rightarrow> bool" where
  "send_frame mesh mesh' =
     (length (pblock mesh') = length (pblock mesh)
      \<and> (\<forall>i < length (pblock mesh). only_eflux_recv (pblock mesh ! i) (pblock mesh' ! i)))"

lemma only_eflux_recv_refl [simp]: "only_eflux_recv blk blk"
  unfolding only_eflux_recv_def
  by (rule exI[of _ "eflux_recv (pbval blk)"], rule exI[of _ "eflux_flag (pbval blk)"]) simp



lemma send_frame_refl [simp]: "send_frame mesh mesh"
  by (simp add: send_frame_def)












subsection \<open>Edge flux: when the send routine returns\<close>












subsection \<open>Edge flux: delivery to a neighbour on the same process\<close>











lemma upto_single [simp]: "[i..i] = [i::int]"
  by (simp add: upto_rec1)




end
